theory Spec2Isabelle
  imports Complex_Main "HOL-Library.AList" "HOL-Library.Monad_Syntax"
begin

section \<open>Result model (crawler/models.py)\<close>

text \<open>
  \<^verbatim>\<open>datetime\<close> is a class of the standard library; the model takes it as a type
  parameter \<open>'dt\<close>.  Python's \<^verbatim>\<open>int\<close> is unbounded and is modelled by \<open>int\<close>,
  \<^verbatim>\<open>Optional[str]\<close> by \<open>string option\<close>.
\<close>

record 'dt HotSearchItem =
  word :: string
  heat :: int
  rank :: int
  url :: string
  category :: "string option"
  tags :: "string list"
  created_at :: 'dt

record 'dt HotSearchResult =
  items :: "'dt HotSearchItem list"
  total :: int
  crawl_time :: 'dt
  source :: string

text \<open>
  \<^verbatim>\<open>HotSearchResult()\<close> with every field at its default; the default of
  \<^verbatim>\<open>crawl_time\<close> is \<^verbatim>\<open>datetime.now()\<close>, the clock reading \<open>now\<close>.
\<close>

definition new_result :: "'dt \<Rightarrow> 'dt HotSearchResult" where
  "new_result now = \<lparr>items = [], total = 0, crawl_time = now, source = ''xiaohongshu''\<rparr>"

text \<open>
  \<^verbatim>\<open>self.items.append(item); self.total = len(self.items)\<close>: the mutation of
  \<^verbatim>\<open>self\<close> is returned as the new object.
\<close>

definition add_item :: "'dt HotSearchResult \<Rightarrow> 'dt HotSearchItem \<Rightarrow> 'dt HotSearchResult" where
  "add_item self item =
     (let items' = items self @ [item]
      in self\<lparr>items := items', total := int (length items')\<rparr>)"

text \<open>
  The slice \<^verbatim>\<open>xs[:n]\<close> of Python: a negative bound counts from the end of the list.
\<close>

definition slice_to :: "'a list \<Rightarrow> int \<Rightarrow> 'a list" where
  "slice_to xs n =
     (if 0 \<le> n then take (nat n) xs else take (nat (int (length xs) + n)) xs)"

text \<open>
  \<^verbatim>\<open>get_top_n\<close> returns the slice; the object it was called on is returned beside
  it, so that what the call does to the object is part of the model.
\<close>

definition get_top_n :: "'dt HotSearchResult \<Rightarrow> int \<Rightarrow> 'dt HotSearchItem list \<times> 'dt HotSearchResult" where
  "get_top_n self n = (slice_to (items self) n, self)"

section \<open>Persistence (utils/data_saver.py)\<close>

text \<open>
  The values \<^verbatim>\<open>json.load\<close> returns and \<^verbatim>\<open>json.dump\<close> accepts, as far as
  \<^verbatim>\<open>save_json\<close> writes them: \<^verbatim>\<open>None\<close>, integers, strings, lists and dictionaries
  with string keys.  A file holds such a value: the text that \<^verbatim>\<open>json.dump\<close> prints and
  \<^verbatim>\<open>json.load\<close> reads back is the standard library's and is not part of the model.
\<close>

datatype json = JNull | JInt int | JStr string | JArr "json list" | JObj "(string \<times> json) list"

text \<open>
  The three functions of \<^verbatim>\<open>datetime\<close> that the saver calls.  \<open>fromisoformat\<close> is
  \<open>None\<close> where Python raises \<^verbatim>\<open>ValueError\<close>; \<open>strftime_stamp\<close> is
  \<^verbatim>\<open>strftime("%Y%m%d_%H%M%S")\<close>.
\<close>

record 'dt datetime_lib =
  isoformat :: "'dt \<Rightarrow> string"
  fromisoformat :: "string \<Rightarrow> 'dt option"
  strftime_stamp :: "'dt \<Rightarrow> string"

text \<open>
  A path is the list of its components, \<^verbatim>\<open>p / name\<close> appends the component
  \<open>name\<close>; the file system maps a path to the value stored in the file.
\<close>

type_synonym path = "string list"
type_synonym filesystem = "path \<rightharpoonup> json"

record DataSaver =
  data_dir :: path
  output_dir :: path
  base_output_dir :: path
  current_session_dir :: "path option"

definition item_dict :: "'dt datetime_lib \<Rightarrow> 'dt HotSearchItem \<Rightarrow> json" where
  "item_dict lib item = JObj
     [(''word'', JStr (word item)),
      (''heat'', JInt (heat item)),
      (''rank'', JInt (rank item)),
      (''url'', JStr (url item)),
      (''category'', (case category item of None \<Rightarrow> JNull | Some c \<Rightarrow> JStr c)),
      (''tags'', JArr (map JStr (tags item))),
      (''created_at'', JStr (isoformat lib (created_at item)))]"

definition data_dict :: "'dt datetime_lib \<Rightarrow> 'dt HotSearchResult \<Rightarrow> json" where
  "data_dict lib data = JObj
     [(''total'', JInt (total data)),
      (''crawl_time'', JStr (isoformat lib (crawl_time data))),
      (''source'', JStr (source data)),
      (''items'', JArr (map (item_dict lib) (items data)))]"

text \<open>
  \<^verbatim>\<open>save_json\<close>: \<open>filename\<close> is \<open>None\<close> for Python's \<^verbatim>\<open>None\<close>, and the empty
  name counts as absent too (\<^verbatim>\<open>if not filename\<close>).  The result is the file system
  after the write and the path written.
\<close>

definition save_json ::
  "'dt datetime_lib \<Rightarrow> 'dt \<Rightarrow> DataSaver \<Rightarrow> filesystem \<Rightarrow> 'dt HotSearchResult \<Rightarrow> string option \<Rightarrow> bool
     \<Rightarrow> filesystem \<times> path" where
  "save_json lib now self fs data filename save_to_crawl_data =
     (let filename' =
            (case filename of
               None \<Rightarrow> ''xiaohongshu_hot_search_'' @ strftime_stamp lib now @ ''.json''
             | Some f \<Rightarrow>
                 if f = [] then ''xiaohongshu_hot_search_'' @ strftime_stamp lib now @ ''.json''
                 else f);
          file_path =
            (case current_session_dir self of
               Some d \<Rightarrow> if save_to_crawl_data then d @ [''crawl_data'', filename']
                         else data_dir self @ [filename']
             | None \<Rightarrow> data_dir self @ [filename'])
      in (fs(file_path \<mapsto> data_dict lib data), file_path))"

text \<open>\<^verbatim>\<open>d.get(k, default)\<close> on a dictionary.\<close>

definition dict_get :: "(string \<times> json) list \<Rightarrow> string \<Rightarrow> json \<Rightarrow> json" where
  "dict_get d k dflt = (case map_of d k of None \<Rightarrow> dflt | Some v \<Rightarrow> v)"

text \<open>
  What the model fields accept: an integer for \<^verbatim>\<open>int\<close>, a string for \<^verbatim>\<open>str\<close>,
  \<^verbatim>\<open>None\<close> or a string for \<^verbatim>\<open>Optional[str]\<close>, a list of strings for
  \<^verbatim>\<open>List[str]\<close>.  \<open>None\<close> is the validation error.  (The conversions by which the
  validating library reads other kinds of value into a field are not modelled.)
\<close>

fun validate_int :: "json \<Rightarrow> int option" where
  "validate_int (JInt n) = Some n"
| "validate_int _ = None"

fun validate_str :: "json \<Rightarrow> string option" where
  "validate_str (JStr s) = Some s"
| "validate_str _ = None"

fun validate_opt_str :: "json \<Rightarrow> string option option" where
  "validate_opt_str JNull = Some None"
| "validate_opt_str (JStr s) = Some (Some s)"
| "validate_opt_str _ = None"

fun validate_all :: "(json \<Rightarrow> 'a option) \<Rightarrow> json list \<Rightarrow> 'a list option" where
  "validate_all f [] = Some []"
| "validate_all f (x # xs) =
     (case f x of None \<Rightarrow> None
      | Some y \<Rightarrow> (case validate_all f xs of None \<Rightarrow> None | Some ys \<Rightarrow> Some (y # ys)))"

fun validate_str_list :: "json \<Rightarrow> string list option" where
  "validate_str_list (JArr xs) = validate_all validate_str xs"
| "validate_str_list _ = None"

text \<open>\<^verbatim>\<open>datetime.fromisoformat(v)\<close>: a value that is no string raises as well.\<close>

fun parse_datetime :: "'dt datetime_lib \<Rightarrow> json \<Rightarrow> 'dt option" where
  "parse_datetime lib (JStr s) = fromisoformat lib s"
| "parse_datetime lib _ = None"

text \<open>
  The body of the loop of \<^verbatim>\<open>load_json\<close>: \<^verbatim>\<open>item_data['word']\<close> raises on a
  missing key and on a value that is no dictionary; \<^verbatim>\<open>item_data.get\<close> has defaults.
\<close>

definition load_item :: "'dt datetime_lib \<Rightarrow> 'dt \<Rightarrow> json \<Rightarrow> 'dt HotSearchItem option" where
  "load_item lib now item_data =
     (case item_data of
        JObj d \<Rightarrow> do {
          w \<leftarrow> Option.bind (map_of d ''word'') validate_str;
          h \<leftarrow> Option.bind (map_of d ''heat'') validate_int;
          r \<leftarrow> Option.bind (map_of d ''rank'') validate_int;
          u \<leftarrow> Option.bind (map_of d ''url'') validate_str;
          c \<leftarrow> validate_opt_str (dict_get d ''category'' JNull);
          t \<leftarrow> validate_str_list (dict_get d ''tags'' (JArr []));
          ca \<leftarrow> parse_datetime lib (dict_get d ''created_at'' (JStr (isoformat lib now)));
          Some \<lparr>word = w, heat = h, rank = r, url = u, category = c, tags = t,
                created_at = ca\<rparr> }
      | _ \<Rightarrow> None)"

fun load_items ::
  "'dt datetime_lib \<Rightarrow> 'dt \<Rightarrow> 'dt HotSearchResult \<Rightarrow> json list \<Rightarrow> 'dt HotSearchResult option" where
  "load_items lib now result [] = Some result"
| "load_items lib now result (x # xs) =
     (case load_item lib now x of
        None \<Rightarrow> None
      | Some item \<Rightarrow> load_items lib now (add_item result item) xs)"

text \<open>
  What a \<^verbatim>\<open>for\<close> loop iterates over: the elements of a list, the keys of a
  dictionary, the characters of a string; any other value raises \<^verbatim>\<open>TypeError\<close>.
\<close>

fun py_iter :: "json \<Rightarrow> json list option" where
  "py_iter (JArr xs) = Some xs"
| "py_iter (JObj d) = Some (map (\<lambda>kv. JStr (fst kv)) d)"
| "py_iter (JStr s) = Some (map (\<lambda>c. JStr [c]) s)"
| "py_iter _ = None"

text \<open>
  \<^verbatim>\<open>load_json\<close> reads \<^verbatim>\<open>self.data_dir / filename\<close>; every exception, a missing file
  included, is caught and gives \<^verbatim>\<open>None\<close>.
\<close>

definition load_json ::
  "'dt datetime_lib \<Rightarrow> 'dt \<Rightarrow> DataSaver \<Rightarrow> filesystem \<Rightarrow> string \<Rightarrow> 'dt HotSearchResult option" where
  "load_json lib now self fs filename =
     (case fs (data_dir self @ [filename]) of
        Some (JObj d) \<Rightarrow> do {
          t \<leftarrow> validate_int (dict_get d ''total'' (JInt 0));
          ct \<leftarrow> parse_datetime lib (dict_get d ''crawl_time'' (JStr (isoformat lib now)));
          src \<leftarrow> validate_str (dict_get d ''source'' (JStr ''xiaohongshu''));
          xs \<leftarrow> py_iter (dict_get d ''items'' (JArr []));
          load_items lib now \<lparr>items = [], total = t, crawl_time = ct, source = src\<rparr> xs }
      | _ \<Rightarrow> None)"

section \<open>Trend analysis (utils/analysis.py)\<close>

text \<open>
  One entry of the list \<^verbatim>\<open>rank_changes\<close>, and the dictionary
  \<^verbatim>\<open>generate_trend_analysis\<close> returns: either the report
  \<^verbatim>\<open>{'status': 'no_previous_data'}\<close> or the five entries of the comparison.  (The
  third kind of report, for an exception, cannot arise from two lists of items.)
\<close>

datatype rank_change = RankChange (rc_word: string) (rc_current_rank: int) (rc_previous_rank: int) (rc_change: int)

datatype trend_report =
    NoPreviousData
  | TrendReport (new_items: nat) (removed_items: nat) (rank_changes: "rank_change list")
      (new_words_list: "string list") (removed_words_list: "string list")

text \<open>
  \<^verbatim>\<open>{item.word: item for item in items}\<close>: a key keeps the position of its first
  occurrence and takes the item of its last one.
\<close>

definition word_dict :: "'dt HotSearchItem list \<Rightarrow> (string \<times> 'dt HotSearchItem) list" where
  "word_dict xs = foldl (\<lambda>d item. AList.update (word item) item d) [] xs"

text \<open>The body of the loop that collects the rank changes, for one entry of the current words.\<close>

definition rank_entry ::
  "(string \<times> 'dt HotSearchItem) list \<Rightarrow> string \<times> 'dt HotSearchItem \<Rightarrow> rank_change option" where
  "rank_entry previous_words = (\<lambda>(w, current_item).
                 case map_of previous_words w of
                   None \<Rightarrow> None
                 | Some previous_item \<Rightarrow>
                     (let rank_change = rank previous_item - rank current_item
                      in if rank_change \<noteq> 0
                         then Some (RankChange w (rank current_item) (rank previous_item) rank_change)
                         else None))"

definition generate_trend_analysis ::
  "'dt HotSearchItem list \<Rightarrow> 'dt HotSearchItem list \<Rightarrow> trend_report" where
  "generate_trend_analysis current_items previous_items =
     (if previous_items = [] then NoPreviousData
      else
        let current_words = word_dict current_items;
            previous_words = word_dict previous_items;
            new_words = [item. (w, item) \<leftarrow> current_words, map_of previous_words w = None];
            removed_words = [item. (w, item) \<leftarrow> previous_words, map_of current_words w = None];
            rank_changes = List.map_filter (rank_entry previous_words) current_words
        in TrendReport (length new_words) (length removed_words) rank_changes
             (map word (take 10 new_words)) (map word (take 10 removed_words)))"

text \<open>
  The notions the report is stated with: the last item of a list that carries a given
  word, and the elements of a list in the order of their first occurrences.
\<close>

definition last_item :: "'dt HotSearchItem list \<Rightarrow> string \<Rightarrow> 'dt HotSearchItem option" where
  "last_item xs w = find (\<lambda>i. word i = w) (rev xs)"

definition first_seen :: "'a list \<Rightarrow> 'a list" where
  "first_seen xs = rev (remdups (rev xs))"

section \<open>Analysis (utils/analysis.py)\<close>


definition is_space :: "char \<Rightarrow> bool" where
  "is_space c = ((of_char c :: nat) \<in> {9, 10, 11, 12, 13, 28, 29, 30, 31, 32})"













section \<open>Configuration (crawler/models.py)\<close>

record CrawlerConfig =
  hot_search_url :: string
  timeout :: int
  max_retries :: int
  request_delay :: int
  user_agent :: string
  limit :: int
  use_playwright :: bool
  browser_type :: string
  headless :: bool

section \<open>The request loop (crawler/base_crawler.py)\<close>
















section \<open>The crawler with a browser fallback (crawler/crawler_with_fallback.py)\<close>

text \<open>
  The operations on the browser library and on the HTTP session that the crawler
  performs.  Each of them can raise; the environment says which do, and what the
  elements matched by the locator of hot items answer to \<^verbatim>\<open>text_content()\<close>: a text,
  \<^verbatim>\<open>None\<close>, or an exception.
\<close>

datatype operation =
    Start | Launch | NewContext | NewPage | SetTimeout | Goto | Content
  | Count | Evaluate | Scripts | PageClose | ContextClose | BrowserClose | Stop | SessionClose

datatype element = Text string | NoText | ElementError

record browser_env =
  raises :: "operation set"
  elements :: "element list"

text \<open>
  The attributes of the crawler object (\<^verbatim>\<open>self.use_playwright\<close>, and whether
  \<^verbatim>\<open>self.browser\<close> and \<^verbatim>\<open>self.playwright\<close> are set), the operations performed so
  far, and the resources of the browser library that are acquired and not released.
\<close>

record fallback_crawler =
  self_use_playwright :: bool
  self_browser :: bool
  self_playwright :: bool
  calls :: "operation list"
  engine_running :: bool
  browser_open :: bool
  context_open :: bool
  page_open :: bool

text \<open>
  \<^verbatim>\<open>__init__\<close>; \<open>available\<close> is \<^verbatim>\<open>PLAYWRIGHT_AVAILABLE\<close>, whether the import of the
  browser library succeeded.
\<close>

definition fallback_init :: "CrawlerConfig \<Rightarrow> bool \<Rightarrow> fallback_crawler" where
  "fallback_init config available =
     \<lparr>self_use_playwright = (use_playwright config \<and> available), self_browser = False,
      self_playwright = False, calls = [], engine_running = False, browser_open = False,
      context_open = False, page_open = False\<rparr>"

text \<open>Performing an operation records it; the result says whether it returned.\<close>

definition perform :: "browser_env \<Rightarrow> operation \<Rightarrow> fallback_crawler \<Rightarrow> bool \<times> fallback_crawler" where
  "perform env opn st = (opn \<notin> raises env, st\<lparr>calls := calls st @ [opn]\<rparr>)"

text \<open>
  A sequence of operations inside one \<^verbatim>\<open>try\<close> block, each with what it acquires or
  releases when it returns: the sequence stops at the first that raises.
\<close>

fun run_ops ::
  "browser_env \<Rightarrow> (operation \<times> (fallback_crawler \<Rightarrow> fallback_crawler)) list \<Rightarrow> fallback_crawler
     \<Rightarrow> bool \<times> fallback_crawler" where
  "run_ops env [] st = (True, st)"
| "run_ops env ((opn, effect) # rest) st =
     (let (ok, st') = perform env opn st
      in if ok then run_ops env rest (effect st') else (False, st'))"

text \<open>\<^verbatim>\<open>_setup_playwright\<close>.\<close>

definition setup_playwright :: "browser_env \<Rightarrow> fallback_crawler \<Rightarrow> bool \<times> fallback_crawler" where
  "setup_playwright env st =
     (if \<not> self_use_playwright st then (False, st)
      else
        let (ok, st') =
              run_ops env
                [(Start, \<lambda>s. s\<lparr>self_playwright := True, engine_running := True\<rparr>),
                 (Launch, \<lambda>s. s\<lparr>self_browser := True, browser_open := True\<rparr>)] st
        in if ok then (True, st') else (False, st'\<lparr>self_use_playwright := False\<rparr>))"

text \<open>\<^verbatim>\<open>str.strip()\<close>.\<close>

definition py_strip :: "string \<Rightarrow> string" where
  "py_strip s = rev (dropWhile is_space (rev (dropWhile is_space s)))"

text \<open>
  The loop of \<^verbatim>\<open>_extract_data_from_page\<close> over the matched elements, \<open>i\<close> being the
  index of the first of them: an element with a text that is not empty gives an item, an
  element with no text or with an exception is passed over.
\<close>

fun extract_items :: "'dt \<Rightarrow> int \<Rightarrow> 'dt HotSearchResult \<Rightarrow> element list \<Rightarrow> 'dt HotSearchResult" where
  "extract_items now i result [] = result"
| "extract_items now i result (e # es) =
     (case e of
        Text text_content \<Rightarrow>
          if text_content \<noteq> [] then
            extract_items now (i + 1)
              (add_item result
                 \<lparr>word = py_strip text_content, heat = 0, rank = i + 1, url = [],
                  category = None, tags = [], created_at = now\<rparr>) es
          else extract_items now (i + 1) result es
      | _ \<Rightarrow> extract_items now (i + 1) result es)"

text \<open>
  \<^verbatim>\<open>_extract_data_from_page\<close>.  Counting the matched elements or listing the script
  elements can raise, which the outer handler turns into \<^verbatim>\<open>None\<close>; an exception of
  the evaluation in the page is caught where it is raised.  The clock reading \<open>now\<close>
  stands for every \<^verbatim>\<open>datetime.now()\<close> of the call.
\<close>

definition extract_data_from_page ::
  "browser_env \<Rightarrow> 'dt \<Rightarrow> CrawlerConfig \<Rightarrow> fallback_crawler
     \<Rightarrow> 'dt HotSearchResult option \<times> fallback_crawler" where
  "extract_data_from_page env now config st =
     (let (ok, st1) = perform env Count st
      in if \<not> ok then (None, st1)
         else
           let n = min (int (length (elements env))) (limit config);
               result = extract_items now 0 (new_result now) (take (nat n) (elements env));
               (_, st2) = perform env Evaluate st1;
               (ok', st3) = perform env Scripts st2
           in if \<not> ok' then (None, st3)
              else if total result > 0 then (Some result, st3) else (None, st3))"

text \<open>\<^verbatim>\<open>_crawl_with_playwright\<close>.\<close>

definition crawl_with_playwright ::
  "browser_env \<Rightarrow> 'dt \<Rightarrow> CrawlerConfig \<Rightarrow> fallback_crawler
     \<Rightarrow> 'dt HotSearchResult option \<times> fallback_crawler" where
  "crawl_with_playwright env now config st =
     (if \<not> self_browser st then (None, st)
      else
        let (ok, st1) =
              run_ops env
                [(NewContext, \<lambda>s. s\<lparr>context_open := True\<rparr>),
                 (NewPage, \<lambda>s. s\<lparr>page_open := True\<rparr>),
                 (SetTimeout, \<lambda>s. s), (Goto, \<lambda>s. s), (Content, \<lambda>s. s)] st
        in if \<not> ok then (None, st1)
           else
             let (result, st2) = extract_data_from_page env now config st1;
                 (ok', st3) =
                   run_ops env
                     [(PageClose, \<lambda>s. s\<lparr>page_open := False\<rparr>),
                      (ContextClose, \<lambda>s. s\<lparr>context_open := False\<rparr>)] st2
             in if \<not> ok' then (None, st3) else (result, st3))"

text \<open>
  \<^verbatim>\<open>crawl_hot_search\<close>; \<open>primary\<close> is what \<^verbatim>\<open>super().crawl_hot_search()\<close>, the
  crawler over HTTP, returns.
\<close>

definition crawl_hot_search ::
  "browser_env \<Rightarrow> 'dt \<Rightarrow> CrawlerConfig \<Rightarrow> 'dt HotSearchResult option \<Rightarrow> fallback_crawler
     \<Rightarrow> 'dt HotSearchResult option \<times> fallback_crawler" where
  "crawl_hot_search env now config primary st =
     (case primary of
        Some result \<Rightarrow>
          if total result > 0 then (Some result, st)
          else if self_use_playwright st then
            (let (ok, st1) = setup_playwright env st
             in if ok then crawl_with_playwright env now config st1 else (None, st1))
          else (None, st)
      | None \<Rightarrow>
          if self_use_playwright st then
            (let (ok, st1) = setup_playwright env st
             in if ok then crawl_with_playwright env now config st1 else (None, st1))
          else (None, st))"

text \<open>
  \<^verbatim>\<open>close\<close>: the first component says whether an exception leaves the method, which
  only the closing of the session can cause.  Closing the browser closes its contexts
  and pages with it.
\<close>

definition close :: "browser_env \<Rightarrow> fallback_crawler \<Rightarrow> bool \<times> fallback_crawler" where
  "close env st =
     (let (ok, st1) = perform env SessionClose st
      in if \<not> ok then (True, st1)
         else
           let st2 =
                 (if self_browser st1 then
                    (let (ok', s) = perform env BrowserClose st1
                     in if ok' then s\<lparr>browser_open := False, context_open := False,
                                       page_open := False\<rparr>
                        else s)
                  else st1);
               st3 =
                 (if self_playwright st2 then
                    (let (ok', s) = perform env Stop st2
                     in if ok' then s\<lparr>engine_running := False\<rparr> else s)
                  else st2)
           in (False, st3))"

section \<open>The heat value parser (crawler/api_crawler.py)\<close>

subsection \<open>Floating point numbers\<close>

text \<open>
  A Python \<^verbatim>\<open>float\<close> is an IEEE 754 double: a rational that a double represents, an
  infinity (\<open>True\<close> for the negative one) or a NaN.  The sign of a zero plays no part in
  what follows and is not kept.
\<close>

datatype pyfloat = Finite rat | Infinity bool | NaN

definition pow2 :: "int \<Rightarrow> rat" where
  "pow2 e = (if 0 \<le> e then 2 ^ nat e else 1 / 2 ^ nat (- e))"

text \<open>\<^verbatim>\<open>int.bit_length()\<close> of a positive integer.\<close>

function bit_length :: "int \<Rightarrow> int" where
  "bit_length n = (if n \<le> 0 then 0 else 1 + bit_length (n div 2))"
  by pat_completeness auto
termination
  by (relation "measure nat") auto

text \<open>
  The exponent \<open>e\<close> of a positive rational \<open>q\<close>, with \<open>2 ^ e \<le> q < 2 ^ (e + 1)\<close>,
  found from the lengths of its numerator and denominator.
\<close>

definition exponent_of :: "rat \<Rightarrow> int" where
  "exponent_of q =
     (let (a, b) = quotient_of q;
          e0 = bit_length a - bit_length b
      in if pow2 e0 \<le> q then e0 else e0 - 1)"

text \<open>Rounding to the nearest integer, a tie going to the even one.\<close>

definition round_half_even :: "rat \<Rightarrow> int" where
  "round_half_even q =
     (let f = \<lfloor>q\<rfloor>; d = q - of_int f
      in if d < 1 / 2 then f else if 1 / 2 < d then f + 1
         else if even f then f else f + 1)"

text \<open>
  The double nearest to a rational: 53 bits of precision, the least exponent of a unit
  in the last place being -1074, and the infinity from \<open>2 ^ 1024\<close> on.
\<close>

definition round_double :: "rat \<Rightarrow> pyfloat" where
  "round_double q =
     (if q = 0 then Finite 0
      else
        let a = \<bar>q\<bar>;
            p = max (exponent_of a - 52) (- 1074);
            v = of_int (round_half_even (a / pow2 p)) * pow2 p
        in if 2 ^ 1024 \<le> v then Infinity (q < 0)
           else Finite (if q < 0 then - v else v))"

text \<open>The product of two floats, and \<^verbatim>\<open>int(x)\<close> of a float, which truncates.\<close>

fun float_mul :: "pyfloat \<Rightarrow> pyfloat \<Rightarrow> pyfloat" where
  "float_mul (Finite a) (Finite b) = round_double (a * b)"
| "float_mul NaN _ = NaN"
| "float_mul _ NaN = NaN"
| "float_mul (Infinity s) (Finite b) = (if b = 0 then NaN else Infinity (s \<noteq> (b < 0)))"
| "float_mul (Finite a) (Infinity s) = (if a = 0 then NaN else Infinity (s \<noteq> (a < 0)))"
| "float_mul (Infinity s) (Infinity t) = Infinity (s \<noteq> t)"

datatype py_error = ValueError | TypeError | OverflowError

definition truncate_toward_zero :: "rat \<Rightarrow> int" where
  "truncate_toward_zero q = (if 0 \<le> q then \<lfloor>q\<rfloor> else - \<lfloor>- q\<rfloor>)"

fun int_of_float :: "pyfloat \<Rightarrow> py_error + int" where
  "int_of_float (Finite q) = Inr (truncate_toward_zero q)"
| "int_of_float (Infinity s) = Inl OverflowError"
| "int_of_float NaN = Inl ValueError"

subsection \<open>\<^verbatim>\<open>float(s)\<close> of a string\<close>

definition is_digit :: "char \<Rightarrow> bool" where
  "is_digit c = (48 \<le> (of_char c :: nat) \<and> (of_char c :: nat) \<le> 57)"

definition digits_value :: "string \<Rightarrow> int" where
  "digits_value ds = foldl (\<lambda>a d. 10 * a + ((of_char d :: int) - 48)) 0 ds"

text \<open>The whitespace that \<^verbatim>\<open>float\<close> skips at both ends of its argument.\<close>

definition is_float_space :: "char \<Rightarrow> bool" where
  "is_float_space c = ((of_char c :: nat) \<in> {9, 10, 11, 12, 13, 32})"

text \<open>An underscore is allowed between two digits only.\<close>

fun underscores_ok :: "char option \<Rightarrow> string \<Rightarrow> bool" where
  "underscores_ok prev [] = True"
| "underscores_ok prev (c # cs) =
     (if c = CHR ''_''
      then (case prev of Some p \<Rightarrow> is_digit p | None \<Rightarrow> False)
           \<and> (case cs of d # _ \<Rightarrow> is_digit d | [] \<Rightarrow> False)
           \<and> underscores_ok (Some c) cs
      else underscores_ok (Some c) cs)"

definition pow10 :: "int \<Rightarrow> rat" where
  "pow10 e = (if 0 \<le> e then 10 ^ nat e else 1 / 10 ^ nat (- e))"

text \<open>
  The exponent part of a number: nothing, or \<^verbatim>\<open>e\<close> with an optional sign and at least
  one digit, up to the end of the string.
\<close>

definition parse_exponent :: "string \<Rightarrow> int option" where
  "parse_exponent s =
     (case s of
        [] \<Rightarrow> Some 0
      | c # r \<Rightarrow>
          if c = CHR ''e'' \<or> c = CHR ''E'' then
            (let (neg, ds) = (case r of
                                [] \<Rightarrow> (False, r)
                              | x # r' \<Rightarrow> if x = CHR ''-'' then (True, r')
                                          else if x = CHR ''+'' then (False, r')
                                          else (False, r))
             in if ds \<noteq> [] \<and> (\<forall>d \<in> set ds. is_digit d)
                then Some (if neg then - digits_value ds else digits_value ds)
                else None)
          else None)"

text \<open>
  A number without its sign: digits, an optional point and digits, with a digit on at
  least one side of the point, and the exponent part.  The result is the exact value.
\<close>

definition parse_decimal :: "string \<Rightarrow> rat option" where
  "parse_decimal s =
     (let ip = takeWhile is_digit s;
          r1 = dropWhile is_digit s;
          fp = (case r1 of [] \<Rightarrow> [] | c # r \<Rightarrow> if c = CHR ''.'' then takeWhile is_digit r else []);
          r2 = (case r1 of [] \<Rightarrow> [] | c # r \<Rightarrow> if c = CHR ''.'' then dropWhile is_digit r else r1)
      in if ip = [] \<and> fp = [] then None
         else (case parse_exponent r2 of
                 None \<Rightarrow> None
               | Some e \<Rightarrow>
                   Some (of_int (digits_value (ip @ fp)) * pow10 (e - int (length fp)))))"

text \<open>\<^verbatim>\<open>str.lower()\<close>, on the letters of ASCII.\<close>

definition lower_char :: "char \<Rightarrow> char" where
  "lower_char c =
     (if 65 \<le> (of_char c :: nat) \<and> (of_char c :: nat) \<le> 90
      then char_of ((of_char c :: nat) + 32) else c)"

definition py_lower :: "string \<Rightarrow> string" where
  "py_lower s = map lower_char s"

text \<open>
  \<^verbatim>\<open>float(s)\<close>; \<open>None\<close> is the \<^verbatim>\<open>ValueError\<close> for a string that is no number.  The
  digits are those of ASCII.
\<close>

definition py_float :: "string \<Rightarrow> pyfloat option" where
  "py_float s =
     (if \<not> underscores_ok None s then None
      else
        let t = py_lower (filter (\<lambda>c. c \<noteq> CHR ''_'')
                  (rev (dropWhile is_float_space (rev (dropWhile is_float_space s)))));
            neg = (t \<noteq> [] \<and> hd t = CHR ''-'');
            body = (if t \<noteq> [] \<and> (hd t = CHR ''-'' \<or> hd t = CHR ''+'') then tl t else t)
        in if body = ''inf'' \<or> body = ''infinity'' then Some (Infinity neg)
           else if body = ''nan'' then Some NaN
           else (case parse_decimal body of
                   None \<Rightarrow> None
                 | Some q \<Rightarrow> Some (round_double (if neg then - q else q))))"

subsection \<open>\<^verbatim>\<open>_parse_heat_value\<close>\<close>

text \<open>
  The two unit markers, U+4E07 and U+5343, in UTF-8; \<^verbatim>\<open>sub in s\<close> and
  \<^verbatim>\<open>s.replace(sub, '')\<close> for a string \<open>sub\<close> that is not empty.
\<close>

definition wan :: string where
  "wan = [char_of (228 :: nat), char_of (184 :: nat), char_of (135 :: nat)]"

definition qian :: string where
  "qian = [char_of (229 :: nat), char_of (141 :: nat), char_of (131 :: nat)]"

fun contains :: "string \<Rightarrow> string \<Rightarrow> bool" where
  "contains sub [] = (sub = [])"
| "contains sub (c # cs) = (take (length sub) (c # cs) = sub \<or> contains sub cs)"

function remove_all :: "string \<Rightarrow> string \<Rightarrow> string" where
  "remove_all sub s =
     (if s = [] \<or> sub = [] then s
      else if take (length sub) s = sub then remove_all sub (drop (length sub) s)
      else hd s # remove_all sub (tl s))"
  by pat_completeness auto
termination
  by (relation "measure (\<lambda>(sub, s). length s)") (auto simp: neq_Nil_conv)

text \<open>
  The conversions of the three branches: \<^verbatim>\<open>int(float(num_str) * factor)\<close> and
  \<^verbatim>\<open>int(float(heat_str))\<close>, with the exception each can raise.
\<close>

definition scaled :: "string \<Rightarrow> rat \<Rightarrow> py_error + int" where
  "scaled num_str factor =
     (case py_float num_str of
        None \<Rightarrow> Inl ValueError
      | Some x \<Rightarrow> int_of_float (float_mul x (Finite factor)))"

definition plain :: "string \<Rightarrow> py_error + int" where
  "plain heat_str =
     (case py_float heat_str of None \<Rightarrow> Inl ValueError | Some x \<Rightarrow> int_of_float x)"

text \<open>
  \<^verbatim>\<open>_parse_heat_value\<close>; \<open>cleaned\<close> is the string after \<^verbatim>\<open>lower\<close>, \<^verbatim>\<open>strip\<close>
  and the removal of spaces and commas.  The handler catches \<^verbatim>\<open>ValueError\<close> and \<^verbatim>\<open>TypeError\<close>
  and returns 0; any other exception leaves the method.
\<close>

definition cleaned :: "string \<Rightarrow> string" where
  "cleaned heat_str =
     filter (\<lambda>c. c \<noteq> CHR '','') (filter (\<lambda>c. c \<noteq> CHR '' '') (py_strip (py_lower heat_str)))"

definition parse_heat_value :: "string \<Rightarrow> py_error + int" where
  "parse_heat_value heat_str =
     (if heat_str = [] then Inr 0
      else
        let s = cleaned heat_str;
            attempt =
              (if contains wan s \<or> CHR ''w'' \<in> set s
               then scaled (filter (\<lambda>c. c \<noteq> CHR ''w'') (remove_all wan s)) 10000
               else if contains qian s \<or> CHR ''k'' \<in> set s
               then scaled (filter (\<lambda>c. c \<noteq> CHR ''k'') (remove_all qian s)) 1000
               else plain s)
        in case attempt of
             Inl ValueError \<Rightarrow> Inr 0
           | Inl TypeError \<Rightarrow> Inr 0
           | other \<Rightarrow> other)"

text \<open>
  The strings on which the functions above are those of Python: every character is one
  of ASCII or one of the two unit markers.  (Beyond them, \<^verbatim>\<open>lower\<close>, \<^verbatim>\<open>strip\<close> and
  \<^verbatim>\<open>float\<close> know letters, spaces and digits that are not modelled.)
\<close>

fun ascii_or_unit :: "string \<Rightarrow> bool" where
  "ascii_or_unit (a # b # c # cs) =
     (if (of_char a :: nat) < 128 then ascii_or_unit (b # c # cs)
      else ([a, b, c] = wan \<or> [a, b, c] = qian) \<and> ascii_or_unit cs)"
| "ascii_or_unit cs = (\<forall>c \<in> set cs. (of_char c :: nat) < 128)"

section \<open>The crawler over the API (crawler/api_crawler.py)\<close>

text \<open>
  What \<^verbatim>\<open>requests.get\<close> does with the request to the API: it raises, or it returns a
  response with a status code and a body, \<open>None\<close> being a body that is no JSON.  The
  trace of a crawler lists the requests issued, each with the value sent as the
  parameter \<^verbatim>\<open>key\<close>.
\<close>

datatype api_response = ApiRaises | ApiResponse int "json option"

datatype api_call = ApiGet "string option"

record api_crawler =
  api_key :: "string option"
  api_config :: CrawlerConfig

text \<open>\<^verbatim>\<open>_make_api_request\<close>: one request, and \<^verbatim>\<open>None\<close> for every failure.\<close>

definition make_api_request :: "api_crawler \<Rightarrow> api_response \<Rightarrow> json option \<times> api_call list" where
  "make_api_request self net =
     (case net of
        ApiRaises \<Rightarrow> None
      | ApiResponse status_code body \<Rightarrow>
          if status_code \<noteq> 200 then None
          else (case body of
                  Some (JObj d) \<Rightarrow>
                    if dict_get d ''code'' JNull \<noteq> JInt 200 then None else Some (JObj d)
                | _ \<Rightarrow> None),
      [ApiGet (api_key self)])"

text \<open>The values that count as false in a condition.\<close>

fun falsy :: "json \<Rightarrow> bool" where
  "falsy JNull = True"
| "falsy (JInt n) = (n = 0)"
| "falsy (JStr s) = (s = [])"
| "falsy (JArr xs) = (xs = [])"
| "falsy (JObj d) = (d = [])"

text \<open>
  \<^verbatim>\<open>int(v)\<close> of a value of a JSON document; \<open>None\<close> is the exception for a string
  that is no integer and for a value that is neither a number nor a string.
\<close>

definition int_of_str :: "string \<Rightarrow> int option" where
  "int_of_str s =
     (if \<not> underscores_ok None s then None
      else
        let t = filter (\<lambda>c. c \<noteq> CHR ''_'')
                  (rev (dropWhile is_float_space (rev (dropWhile is_float_space s))));
            neg = (t \<noteq> [] \<and> hd t = CHR ''-'');
            ds = (if t \<noteq> [] \<and> (hd t = CHR ''-'' \<or> hd t = CHR ''+'') then tl t else t)
        in if ds \<noteq> [] \<and> (\<forall>d \<in> set ds. is_digit d)
           then Some (if neg then - digits_value ds else digits_value ds)
           else None)"

fun py_int :: "json \<Rightarrow> int option" where
  "py_int (JInt n) = Some n"
| "py_int (JStr s) = int_of_str s"
| "py_int _ = None"

text \<open>
  \<^verbatim>\<open>self._parse_heat_value(v)\<close> for a value of the document: a false value gives 0,
  a string is parsed, and any other value has no method \<^verbatim>\<open>lower\<close>; \<open>None\<close> is an
  exception that leaves the method.
\<close>

definition heat_of :: "json \<Rightarrow> int option" where
  "heat_of v =
     (if falsy v then Some 0
      else (case v of
              JStr s \<Rightarrow> (case parse_heat_value s of Inr n \<Rightarrow> Some n | Inl _ \<Rightarrow> None)
            | _ \<Rightarrow> None))"

text \<open>
  The body of the loop of \<^verbatim>\<open>_parse_api_data\<close> for the entry \<open>item_data\<close> at the
  index \<open>idx\<close>: \<open>None\<close> when the entry is skipped, for a missing word or for an
  exception.  The default category is the character U+70ED.
\<close>

definition api_item :: "'dt \<Rightarrow> int \<Rightarrow> json \<Rightarrow> 'dt HotSearchItem option" where
  "api_item now idx item_data =
     (case item_data of
        JObj d \<Rightarrow> do {
          let word = dict_get d ''name'' (JStr []);
          rank \<leftarrow> py_int (dict_get d ''rank'' (JInt (idx + 1)));
          let heat_str = dict_get d ''viewnum'' (JStr ''0'');
          let url = dict_get d ''url'' (JStr []);
          let word_type = dict_get d ''word_type''
                (JStr [char_of (231 :: nat), char_of (131 :: nat), char_of (173 :: nat)]);
          if falsy word then None
          else do {
            heat \<leftarrow> heat_of heat_str;
            w \<leftarrow> validate_str word;
            u \<leftarrow> validate_str url;
            c \<leftarrow> validate_opt_str word_type;
            Some \<lparr>word = w, heat = heat, rank = rank, url = u, category = c, tags = [],
                  created_at = now\<rparr> } }
      | _ \<Rightarrow> None)"

fun api_items :: "'dt \<Rightarrow> int \<Rightarrow> 'dt HotSearchResult \<Rightarrow> json list \<Rightarrow> 'dt HotSearchResult" where
  "api_items now idx result [] = result"
| "api_items now idx result (x # xs) =
     (case api_item now idx x of
        None \<Rightarrow> api_items now (idx + 1) result xs
      | Some item \<Rightarrow> api_items now (idx + 1) (add_item result item) xs)"

text \<open>
  \<^verbatim>\<open>_parse_api_data\<close>: a list is cut at the limit and parsed; a string that is not empty
  has its characters skipped one by one; a dictionary or a number cannot be cut nor
  measured, which is the \<^verbatim>\<open>None\<close> of the outer handler.
\<close>

definition parse_api_data :: "'dt \<Rightarrow> CrawlerConfig \<Rightarrow> (string \<times> json) list \<Rightarrow> 'dt HotSearchResult option" where
  "parse_api_data now config data =
     (let result = new_result now;
          hot_list = dict_get data ''data'' (JArr [])
      in if falsy hot_list then Some result
         else (case hot_list of
                 JArr xs \<Rightarrow> Some (api_items now 0 result (slice_to xs (limit config)))
               | JStr s \<Rightarrow> Some result
               | _ \<Rightarrow> None))"

text \<open>\<^verbatim>\<open>crawl_hot_search\<close> of the API crawler.\<close>

definition api_crawl_hot_search ::
  "'dt \<Rightarrow> api_crawler \<Rightarrow> api_response \<Rightarrow> 'dt HotSearchResult option \<times> api_call list" where
  "api_crawl_hot_search now self net =
     (let (api_data, calls) = make_api_request self net
      in case api_data of
           Some (JObj d) \<Rightarrow> if d = [] then (None, calls)
                            else (parse_api_data now (api_config self) d, calls)
         | _ \<Rightarrow> (None, calls))"

text \<open>
  \<^verbatim>\<open>create_api_crawler\<close>: \<open>env_key\<close> is the environment variable
  \<^verbatim>\<open>XIAOHONGSHU_API_KEY\<close>.  The function issues no request.
\<close>

definition absent :: "string option \<Rightarrow> bool" where
  "absent k = (k = None \<or> k = Some [])"

definition create_api_crawler :: "string option \<Rightarrow> string option \<Rightarrow> py_error + api_crawler" where
  "create_api_crawler key env_key =
     (let api_key = (if absent key then env_key else key)
      in if absent api_key then Inl ValueError
         else Inr \<lparr>api_key = api_key,
                   api_config = \<lparr>hot_search_url = ''https://api.itapi.cn/api/hotnews/xiaohongshu'',
                     timeout = 30, max_retries = 3, request_delay = 3,
                     user_agent = ''XiaohongshuApiCrawler/1.0'', limit = 50,
                     use_playwright = False, browser_type = ''chromium'', headless = True\<rparr>\<rparr>)"

section \<open>Example values\<close>

text \<open>
  An instance of the \<^verbatim>\<open>datetime\<close> functions in which a datetime is represented by
  its ISO-8601 text, so that printing and parsing it are the identity.
\<close>

definition iso_text_lib :: "string datetime_lib" where
  "iso_text_lib = \<lparr>isoformat = id, fromisoformat = Some, strftime_stamp = id\<rparr>"

definition example_saver :: DataSaver where
  "example_saver = \<lparr>data_dir = [''data''], output_dir = [''output''],
     base_output_dir = [''output''], current_session_dir = None\<rparr>"

definition session_saver :: DataSaver where
  "session_saver = \<lparr>data_dir = [''data''], output_dir = [''output'', ''20250101'', ''0900''],
     base_output_dir = [''output''],
     current_session_dir = Some [''output'', ''20250101'', ''0900'']\<rparr>"

definition example_item :: "string \<Rightarrow> int \<Rightarrow> int \<Rightarrow> string HotSearchItem" where
  "example_item w h r = \<lparr>word = w, heat = h, rank = r, url = [], category = None, tags = [],
     created_at = ''2025-01-01T09:00:00''\<rparr>"

definition example_result :: "string HotSearchResult" where
  "example_result = \<lparr>items = [example_item ''A'' 100 1, example_item ''B'' 50 2], total = 2,
     crawl_time = ''2025-01-01T09:00:00'', source = ''xiaohongshu''\<rparr>"

text \<open>\<^verbatim>\<open>HotSearchResult(items=[item])\<close>: the constructor leaves \<^verbatim>\<open>total\<close> at its default.\<close>

definition uncounted_result :: "string HotSearchResult" where
  "uncounted_result = \<lparr>items = [example_item ''A'' 100 1], total = 0,
     crawl_time = ''2025-01-01T09:00:00'', source = ''xiaohongshu''\<rparr>"

text \<open>A stored file whose \<^verbatim>\<open>total\<close> is 3 and whose list of items is empty.\<close>

definition empty_items_fs :: filesystem where
  "empty_items_fs = Map.empty([''data'', ''f.json''] \<mapsto>
     JObj [(''total'', JInt 3), (''crawl_time'', JStr ''2025-01-01T09:00:00''),
           (''source'', JStr ''xiaohongshu''), (''items'', JArr [])])"

definition eleven_items :: "string HotSearchItem list" where
  "eleven_items =
     [example_item ''a'' 0 1, example_item ''b'' 0 2, example_item ''c'' 0 3,
      example_item ''d'' 0 4, example_item ''e'' 0 5, example_item ''f'' 0 6,
      example_item ''g'' 0 7, example_item ''h'' 0 8, example_item ''i'' 0 9,
      example_item ''j'' 0 10, example_item ''k'' 0 11]"



definition default_config :: CrawlerConfig where
  "default_config = \<lparr>hot_search_url = ''https://www.xiaohongshu.com'', timeout = 30,
     max_retries = 3, request_delay = 3, user_agent = ''Mozilla/5.0'', limit = 50,
     use_playwright = True, browser_type = ''chromium'', headless = True\<rparr>"




text \<open>A page on which three elements match, and environments in which nothing or only the
  navigation raises.\<close>

definition three_elements :: "element list" where
  "three_elements = [Text ''alpha'', Text '' beta '', Text ''gamma'']"

definition calm_env :: browser_env where
  "calm_env = \<lparr>raises = {}, elements = three_elements\<rparr>"

definition goto_fails_env :: browser_env where
  "goto_fails_env = \<lparr>raises = {Goto}, elements = three_elements\<rparr>"

definition empty_result :: "string HotSearchResult" where
  "empty_result = \<lparr>items = [], total = 0, crawl_time = ''2025-01-01T09:00:00'',
     source = ''xiaohongshu''\<rparr>"

text \<open>A crawler built with no key, and an answer of the API with one entry.\<close>

definition keyless_crawler :: api_crawler where
  "keyless_crawler = \<lparr>api_key = None, api_config = default_config\<rparr>"

definition one_entry_answer :: api_response where
  "one_entry_answer = ApiResponse 200 (Some (JObj
     [(''code'', JInt 200),
      (''data'', JArr [JObj [(''name'', JStr ''A''), (''rank'', JInt 1),
                             (''viewnum'', JStr ''150''), (''url'', JStr ''u''),
                             (''word_type'', JStr ''hot'')]])]))"


section \<open>Properties of the result model\<close>

lemma add_item_items: "items (add_item r i) = items r @ [i]"
  by (simp add: add_item_def Let_def)

lemma add_item_total: "total (add_item r i) = int (length (items r)) + 1"
  by (simp add: add_item_def Let_def)

lemma foldl_add_item_items: "items (foldl add_item r xs) = items r @ xs"
  by (induction xs arbitrary: r) (simp_all add: add_item_items)

lemma add_item_eq:
  "add_item r i = r\<lparr>items := items r @ [i], total := int (length (items r)) + 1\<rparr>"
  by (simp add: add_item_def Let_def)

lemma foldl_add_item_eq:
  "foldl add_item r xs =
     r\<lparr>items := items r @ xs,
       total := (if xs = [] then total r else int (length (items r @ xs)))\<rparr>"
  by (induction xs arbitrary: r) (simp_all add: add_item_eq)

subsection \<open>C10: \<^verbatim>\<open>get_top_n\<close>\<close>

text \<open>
  C10.  For a non-negative \<open>n\<close>, \<^verbatim>\<open>get_top_n(n)\<close> returns the first
  \<open>min n (length items)\<close> items in their stored order, all of them when \<open>n\<close> is at
  least the item count, and the object it is called on is unchanged.
\<close>

theorem get_top_n_prefix:
  assumes "0 \<le> n"
  shows "fst (get_top_n r n) = take (min (nat n) (length (items r))) (items r)
       \<and> length (fst (get_top_n r n)) = min (nat n) (length (items r))
       \<and> (int (length (items r)) \<le> n \<longrightarrow> fst (get_top_n r n) = items r)
       \<and> snd (get_top_n r n) = r"
  using assms by (simp add: get_top_n_def slice_to_def min_def)

theorem get_top_n_prefix_witness:
  "(0::int) \<le> 5 \<and> int (length (items example_result)) \<le> 5
   \<and> fst (get_top_n example_result 5) = items example_result
   \<and> length (fst (get_top_n example_result 5)) = 2
   \<and> snd (get_top_n example_result 5) = example_result"
  using get_top_n_prefix [of 5 example_result] by (simp add: example_result_def)

subsection \<open>C3: the total of a result\<close>

text \<open>
  C3 (as amended).  After every \<^verbatim>\<open>add_item\<close> the total is the length of the item
  list, whatever the object was before the call; so it is after any non-empty sequence
  of appends, and after any sequence of appends to a fresh \<^verbatim>\<open>HotSearchResult()\<close>.
\<close>

theorem add_item_total_invariant:
  "total (add_item r i) = int (length (items (add_item r i)))
   \<and> (xs \<noteq> [] \<longrightarrow>
        total (foldl add_item r xs) = int (length (items (foldl add_item r xs))))
   \<and> total (foldl add_item (new_result now) xs) =
        int (length (items (foldl add_item (new_result now) xs)))"
  by (simp add: foldl_add_item_eq add_item_eq new_result_def)

theorem add_item_total_invariant_witness:
  "[example_item ''B'' 50 2, example_item ''C'' 20 3] \<noteq> []
   \<and> total (foldl add_item uncounted_result
        [example_item ''B'' 50 2, example_item ''C'' 20 3]) = 3"
  using add_item_total_invariant
    [of uncounted_result "example_item ''B'' 50 2"
        "[example_item ''B'' 50 2, example_item ''C'' 20 3]" "''2025-01-01T09:00:00''"]
  by (simp add: add_item_items uncounted_result_def)

text \<open>
  The total is a field of the constructor all the same: \<^verbatim>\<open>load_json\<close> passes the
  stored total to it, and with no item to append the stored value stays.
\<close>

theorem total_settable_counterexample:
  "load_json iso_text_lib ''2025-01-02T00:00:00'' example_saver empty_items_fs ''f.json'' =
     Some \<lparr>items = [], total = 3, crawl_time = ''2025-01-01T09:00:00'',
            source = ''xiaohongshu''\<rparr>"
  by (simp add: load_json_def example_saver_def iso_text_lib_def dict_get_def
      empty_items_fs_def)

subsection \<open>C4: saving and loading\<close>

lemma validate_all_str: "validate_all validate_str (map JStr ts) = Some ts"
  by (induction ts) simp_all

lemma load_item_item_dict:
  assumes "fromisoformat lib (isoformat lib (created_at i)) = Some (created_at i)"
  shows "load_item lib now (item_dict lib i) = Some i"
  using assms
  by (cases "category i")
     (simp_all add: load_item_def item_dict_def dict_get_def validate_all_str)

lemma load_items_item_dicts:
  assumes "\<And>d. fromisoformat lib (isoformat lib d) = Some d"
  shows "load_items lib now r (map (item_dict lib) xs) = Some (foldl add_item r xs)"
  by (induction xs arbitrary: r) (simp_all add: load_item_item_dict assms)

lemma load_json_data_dict:
  assumes "\<And>d. fromisoformat lib (isoformat lib d) = Some d"
    and "fs (data_dir self @ [filename]) = Some (data_dict lib data)"
  shows "load_json lib now self fs filename =
     Some (data\<lparr>total := (if items data = [] then total data
                            else int (length (items data)))\<rparr>)"
  using assms(2)
  by (simp add: load_json_def data_dict_def dict_get_def assms(1) load_items_item_dicts
      foldl_add_item_eq)

text \<open>
  C4 (as amended).  Let \<^verbatim>\<open>fromisoformat\<close> invert \<^verbatim>\<open>isoformat\<close>, and let
  \<^verbatim>\<open>save_json\<close> write below \<^verbatim>\<open>data_dir\<close> (no session directory, or
  \<^verbatim>\<open>save_to_crawl_data\<close> false).  Then \<^verbatim>\<open>load_json\<close> on the name of the written
  file returns a result with the same items in the same order, the same crawl time and
  source; its total is the item count when there is an item and the saved total when
  there is none, hence the total of the saved result whenever that was its item count.
\<close>

theorem json_round_trip:
  assumes "\<forall>d. fromisoformat lib (isoformat lib d) = Some d"
    and "current_session_dir self = None \<or> \<not> save_to_crawl_data"
    and "save_json lib now self fs data filename save_to_crawl_data = (fs', file_path)"
  shows "load_json lib now' self fs' (last file_path) =
           Some (data\<lparr>total := (if items data = [] then total data
                                  else int (length (items data)))\<rparr>)
       \<and> (total data = int (length (items data)) \<longrightarrow>
            load_json lib now' self fs' (last file_path) = Some data)"
proof -
  obtain name where p: "file_path = data_dir self @ [name]"
    and w: "fs' = fs(file_path \<mapsto> data_dict lib data)"
    using assms(2,3)
    by (auto simp: save_json_def Let_def split: option.splits if_splits)
  have stored: "fs' (data_dir self @ [last file_path]) = Some (data_dict lib data)"
    by (simp add: p w)
  have loaded: "load_json lib now' self fs' (last file_path) =
      Some (data\<lparr>total := (if items data = [] then total data
                             else int (length (items data)))\<rparr>)"
    using assms(1) stored by (intro load_json_data_dict) simp_all
  show ?thesis
    by (simp add: loaded)
qed

theorem json_round_trip_witness:
  "(\<forall>d. fromisoformat iso_text_lib (isoformat iso_text_lib d) = Some d)
   \<and> current_session_dir example_saver = None
   \<and> total example_result = int (length (items example_result))
   \<and> load_json iso_text_lib ''2025-01-02T00:00:00'' example_saver
        (fst (save_json iso_text_lib ''2025-01-01T09:00:05'' example_saver Map.empty
               example_result (Some ''hot.json'') True))
        ''hot.json'' = Some example_result"
proof -
  have h1: "\<forall>d. fromisoformat iso_text_lib (isoformat iso_text_lib d) = Some d"
    by (simp add: iso_text_lib_def)
  have h2: "current_session_dir example_saver = None \<or> \<not> True"
    by (simp add: example_saver_def)
  have h3: "save_json iso_text_lib ''2025-01-01T09:00:05'' example_saver Map.empty
      example_result (Some ''hot.json'') True =
      (fst (save_json iso_text_lib ''2025-01-01T09:00:05'' example_saver Map.empty
               example_result (Some ''hot.json'') True), [''data'', ''hot.json''])"
    by (simp add: save_json_def example_saver_def Let_def)
  have h4: "total example_result = int (length (items example_result))"
    by (simp add: example_result_def)
  show ?thesis
    using json_round_trip [OF h1 h2 h3, of "''2025-01-02T00:00:00''"] h1 h2 h4 by simp
qed

text \<open>
  Two inputs on which the round trip does not give back what was saved: a result whose
  total is not its item count comes back with the item count, and a file written below
  the session directory is not found by \<^verbatim>\<open>load_json\<close>, which reads
  \<^verbatim>\<open>data_dir\<close>.
\<close>

theorem json_round_trip_counterexample:
  "map_option total
     (load_json iso_text_lib ''2025-01-02T00:00:00'' example_saver
        (fst (save_json iso_text_lib ''2025-01-01T09:00:05'' example_saver Map.empty
               uncounted_result (Some ''hot.json'') True))
        ''hot.json'') = Some 1
   \<and> total uncounted_result = 0
   \<and> snd (save_json iso_text_lib ''2025-01-01T09:00:05'' session_saver Map.empty
            example_result (Some ''hot.json'') True)
       = [''output'', ''20250101'', ''0900'', ''crawl_data'', ''hot.json'']
   \<and> load_json iso_text_lib ''2025-01-02T00:00:00'' session_saver
        (fst (save_json iso_text_lib ''2025-01-01T09:00:05'' session_saver Map.empty
               example_result (Some ''hot.json'') True))
        ''hot.json'' = None"
  by (simp add: load_json_def save_json_def Let_def example_saver_def session_saver_def
      iso_text_lib_def dict_get_def data_dict_def item_dict_def load_item_def
      uncounted_result_def example_item_def add_item_def)

subsection \<open>C8: trend analysis\<close>

lemma word_dict_snoc: "word_dict (xs @ [x]) = AList.update (word x) x (word_dict xs)"
  by (simp add: word_dict_def)

lemma last_item_snoc: "last_item (xs @ [x]) w = (if word x = w then Some x else last_item xs w)"
  by (simp add: last_item_def)

lemma map_of_word_dict: "map_of (word_dict xs) w = last_item xs w"
proof (induction xs rule: rev_induct)
  case Nil
  show ?case by (simp add: word_dict_def last_item_def)
next
  case (snoc x xs)
  then show ?case by (simp add: word_dict_snoc last_item_snoc AList.update_conv')
qed

lemma distinct_word_dict: "distinct (map fst (word_dict xs))"
  by (induction xs rule: rev_induct) (simp_all add: word_dict_def AList.distinct_update)

lemma keys_word_dict: "fst ` set (word_dict xs) = word ` set xs"
  by (induction xs rule: rev_induct) (auto simp: word_dict_snoc AList.dom_update, simp add: word_dict_def)

lemma last_item_word: "last_item xs w = Some i \<Longrightarrow> word i = w"
  by (auto simp: last_item_def find_Some_iff)

lemma last_item_None: "last_item xs w = None \<longleftrightarrow> w \<notin> word ` set xs"
  unfolding last_item_def find_None_iff by auto

lemma word_dict_entry:
  assumes "(w, i) \<in> set (word_dict xs)"
  shows "word i = w"
proof -
  have "map_of (word_dict xs) w = Some i"
    using distinct_word_dict assms by (rule map_of_is_SomeI)
  then have "last_item xs w = Some i"
    by (simp only: map_of_word_dict)
  then show ?thesis
    by (rule last_item_word)
qed

lemma words_of_entries:
  "(\<And>w i. (w, i) \<in> set d \<Longrightarrow> word i = w) \<Longrightarrow>
     map word [item. (w, item) \<leftarrow> d, P w] = filter P (map fst d)"
  by (induction d) auto

lemma words_of_filtered:
  "map word [item. (w, item) \<leftarrow> word_dict xs, P w] = filter P (map fst (word_dict xs))"
  by (rule words_of_entries) (rule word_dict_entry)

lemma set_keys_filtered:
  "set (filter P (map fst (word_dict xs))) = {w \<in> word ` set xs. P w}"
proof -
  have "set (map fst (word_dict xs)) = word ` set xs"
    using keys_word_dict [of xs] by simp
  then show ?thesis
    by (simp only: set_filter)
qed

lemma length_filtered:
  "length [item. (w, item) \<leftarrow> word_dict xs, P w] = card {w \<in> word ` set xs. P w}"
proof -
  have d: "distinct (filter P (map fst (word_dict xs)))"
    by (rule distinct_filter) (rule distinct_word_dict)
  have "length [item. (w, item) \<leftarrow> word_dict xs, P w]
      = length (map word [item. (w, item) \<leftarrow> word_dict xs, P w])"
    by (simp only: length_map)
  also have "\<dots> = length (filter P (map fst (word_dict xs)))"
    by (simp only: words_of_filtered)
  also have "\<dots> = card (set (filter P (map fst (word_dict xs))))"
    by (rule distinct_card [symmetric]) (rule d)
  finally show ?thesis
    by (simp only: set_keys_filtered)
qed


lemma keys_word_dict_order: "map fst (word_dict xs) = rev (remdups (rev (map word xs)))"
proof (induction xs rule: rev_induct)
  case Nil
  show ?case by (simp add: word_dict_def)
next
  case (snoc x xs)
  have "set (map fst (word_dict xs)) = word ` set xs"
    using keys_word_dict [of xs] by simp
  with snoc show ?case
    by (simp add: word_dict_snoc AList.update_keys)
qed

lemma rank_entry_word: "rank_entry pw (w, i) = Some rc \<Longrightarrow> rc_word rc = w"
  by (auto simp: rank_entry_def Let_def split: option.splits if_splits)

lemma set_map_filter:
  "set (List.map_filter f xs) = {y. \<exists>x \<in> set xs. f x = Some y}"
  by (induction xs) (auto split: option.splits)

lemma distinct_rank_entries:
  "distinct (map fst d) \<Longrightarrow> distinct (map rc_word (List.map_filter (rank_entry pw) d))"
proof (induction d)
  case Nil
  show ?case by simp
next
  case (Cons e d)
  obtain w i where e: "e = (w, i)" by (cases e)
  have notin: "w \<notin> fst ` set d" using Cons.prems by (simp add: e)
  have tl: "distinct (map rc_word (List.map_filter (rank_entry pw) d))"
    using Cons by simp
  show ?case
  proof (cases "rank_entry pw e")
    case None
    then show ?thesis using tl by simp
  next
    case (Some rc)
    have "rc_word rc = w" using Some e rank_entry_word by blast
    moreover have "w \<notin> rc_word ` set (List.map_filter (rank_entry pw) d)"
    proof
      assume "w \<in> rc_word ` set (List.map_filter (rank_entry pw) d)"
      then obtain rc' e' where "e' \<in> set d" "rank_entry pw e' = Some rc'" "rc_word rc' = w"
        by (auto simp: set_map_filter)
      then have "fst e' = w" using rank_entry_word [of pw "fst e'" "snd e'" rc'] by simp
      with \<open>e' \<in> set d\<close> notin show False by force
    qed
    ultimately show ?thesis using tl Some by simp
  qed
qed

lemma absent_iff: "map_of (word_dict xs) w = None \<longleftrightarrow> w \<notin> word ` set xs"
  by (simp only: map_of_word_dict last_item_None)

lemma words_absent:
  "map word [item. (w, item) \<leftarrow> word_dict xs, map_of (word_dict ys) w = None]
     = filter (\<lambda>w. w \<notin> word ` set ys) (first_seen (map word xs))"
  by (simp only: words_of_filtered absent_iff keys_word_dict_order first_seen_def)

lemma length_absent:
  "length [item. (w, item) \<leftarrow> word_dict xs, map_of (word_dict ys) w = None]
     = card (word ` set xs - word ` set ys)"
proof -
  have "{w \<in> word ` set xs. map_of (word_dict ys) w = None} = word ` set xs - word ` set ys"
    by (auto simp only: absent_iff)
  then show ?thesis by (simp only: length_filtered)
qed

lemma trend_report_eq:
  assumes "previous \<noteq> []"
  shows "generate_trend_analysis current previous =
    TrendReport (card (word ` set current - word ` set previous))
      (card (word ` set previous - word ` set current))
      (List.map_filter (rank_entry (word_dict previous)) (word_dict current))
      (take 10 (filter (\<lambda>w. w \<notin> word ` set previous) (first_seen (map word current))))
      (take 10 (filter (\<lambda>w. w \<notin> word ` set current) (first_seen (map word previous))))"
proof -
  have nl: "map word (take 10 [item. (w, item) \<leftarrow> word_dict current,
                          map_of (word_dict previous) w = None])
      = take 10 (filter (\<lambda>w. w \<notin> word ` set previous) (first_seen (map word current)))"
    by (simp only: take_map [symmetric] words_absent)
  have rl: "map word (take 10 [item. (w, item) \<leftarrow> word_dict previous,
                          map_of (word_dict current) w = None])
      = take 10 (filter (\<lambda>w. w \<notin> word ` set current) (first_seen (map word previous)))"
    by (simp only: take_map [symmetric] words_absent)
  show ?thesis
    unfolding generate_trend_analysis_def Let_def
    by (simp only: assms if_False nl rl length_absent)
qed

lemma set_first_seen: "set (first_seen xs) = set xs"
  by (simp add: first_seen_def)

lemma distinct_first_seen: "distinct (first_seen xs)"
  by (simp add: first_seen_def)

lemma take_all_absent:
  assumes "card (word ` set xs - word ` set ys) \<le> 10"
  shows "set (take 10 (filter (\<lambda>w. w \<notin> word ` set ys) (first_seen (map word xs))))
     = word ` set xs - word ` set ys"
proof -
  let ?l = "filter (\<lambda>w. w \<notin> word ` set ys) (first_seen (map word xs))"
  have s: "set ?l = word ` set xs - word ` set ys"
    by (auto simp: set_first_seen)
  have "distinct ?l" by (simp add: distinct_first_seen)
  then have "length ?l = card (set ?l)" by (rule distinct_card [symmetric])
  with assms s have "length ?l \<le> 10" by simp
  then show ?thesis using s by simp
qed

lemma rank_entry_Some:
  "rank_entry (word_dict previous) (w, c) = Some rc \<longleftrightarrow>
     (\<exists>p. last_item previous w = Some p \<and> rank p - rank c \<noteq> 0
        \<and> rc = RankChange w (rank c) (rank p) (rank p - rank c))"
  by (auto simp: rank_entry_def Let_def map_of_word_dict split: option.splits)

lemma entry_iff: "(w, c) \<in> set (word_dict xs) \<longleftrightarrow> last_item xs w = Some c"
  using distinct_word_dict [of xs] map_of_word_dict [of xs w]
  by (metis map_of_eq_Some_iff)

text \<open>
  C8 (as amended).  With no previous items the report is the sentinel.  Otherwise the
  report counts the words that are new (in the current items, not in the previous ones)
  and the words that disappeared, and lists the first ten of each in the order of their
  first occurrence, so all of them when there are at most ten; and its rank changes
  are, once per word, exactly the words of both lists whose previous rank minus current
  rank is not 0, each with that difference (ranks taken from the last item carrying the
  word).
\<close>

theorem trend_report_contract:
  "(previous = [] \<longrightarrow> generate_trend_analysis current previous = NoPreviousData)
   \<and> (previous \<noteq> [] \<longrightarrow>
        generate_trend_analysis current previous \<noteq> NoPreviousData
      \<and> new_items (generate_trend_analysis current previous)
          = card (word ` set current - word ` set previous)
      \<and> removed_items (generate_trend_analysis current previous)
          = card (word ` set previous - word ` set current)
      \<and> new_words_list (generate_trend_analysis current previous)
          = take 10 (filter (\<lambda>w. w \<notin> word ` set previous) (first_seen (map word current)))
      \<and> removed_words_list (generate_trend_analysis current previous)
          = take 10 (filter (\<lambda>w. w \<notin> word ` set current) (first_seen (map word previous)))
      \<and> (card (word ` set current - word ` set previous) \<le> 10 \<longrightarrow>
           set (new_words_list (generate_trend_analysis current previous))
             = word ` set current - word ` set previous)
      \<and> (card (word ` set previous - word ` set current) \<le> 10 \<longrightarrow>
           set (removed_words_list (generate_trend_analysis current previous))
             = word ` set previous - word ` set current)
      \<and> distinct (map rc_word (rank_changes (generate_trend_analysis current previous)))
      \<and> (\<forall>rc. rc \<in> set (rank_changes (generate_trend_analysis current previous)) \<longleftrightarrow>
            (\<exists>w c p. last_item current w = Some c \<and> last_item previous w = Some p
               \<and> rank p - rank c \<noteq> 0
               \<and> rc = RankChange w (rank c) (rank p) (rank p - rank c))))"
proof (cases "previous = []")
  case True
  then show ?thesis by (simp add: generate_trend_analysis_def)
next
  case False
  note eq = trend_report_eq [OF False, of current]
  have d: "distinct (map rc_word
      (List.map_filter (rank_entry (word_dict previous)) (word_dict current)))"
    by (rule distinct_rank_entries) (rule distinct_word_dict)
  have rcs: "rc \<in> set (List.map_filter (rank_entry (word_dict previous)) (word_dict current))
      \<longleftrightarrow> (\<exists>w c p. last_item current w = Some c \<and> last_item previous w = Some p
               \<and> rank p - rank c \<noteq> 0
               \<and> rc = RankChange w (rank c) (rank p) (rank p - rank c))" for rc
  proof
    assume "rc \<in> set (List.map_filter (rank_entry (word_dict previous)) (word_dict current))"
    then obtain w c where "(w, c) \<in> set (word_dict current)"
      and "rank_entry (word_dict previous) (w, c) = Some rc"
      by (auto simp: set_map_filter)
    then show "\<exists>w c p. last_item current w = Some c \<and> last_item previous w = Some p
               \<and> rank p - rank c \<noteq> 0
               \<and> rc = RankChange w (rank c) (rank p) (rank p - rank c)"
      by (auto simp: entry_iff rank_entry_Some)
  next
    assume "\<exists>w c p. last_item current w = Some c \<and> last_item previous w = Some p
               \<and> rank p - rank c \<noteq> 0
               \<and> rc = RankChange w (rank c) (rank p) (rank p - rank c)"
    then obtain w c p where "last_item current w = Some c" "last_item previous w = Some p"
      "rank p - rank c \<noteq> 0" "rc = RankChange w (rank c) (rank p) (rank p - rank c)"
      by blast
    then have "(w, c) \<in> set (word_dict current)"
      and "rank_entry (word_dict previous) (w, c) = Some rc"
      by (simp_all add: entry_iff rank_entry_Some)
    then show "rc \<in> set (List.map_filter (rank_entry (word_dict previous)) (word_dict current))"
      unfolding set_map_filter by blast
  qed
  show ?thesis
    using False d rcs by (simp add: eq take_all_absent)
qed

theorem trend_report_contract_witness:
  "[example_item ''A'' 0 1, example_item ''B'' 0 2] \<noteq> []
   \<and> generate_trend_analysis [example_item ''B'' 0 1, example_item ''C'' 0 2]
        [example_item ''A'' 0 1, example_item ''B'' 0 2]
       = TrendReport 1 1 [RankChange ''B'' 1 2 1] [''C''] [''A'']
   \<and> set (new_words_list (generate_trend_analysis
        [example_item ''B'' 0 1, example_item ''C'' 0 2]
        [example_item ''A'' 0 1, example_item ''B'' 0 2])) = {''C''}"
  using trend_report_contract
    [of "[example_item ''A'' 0 1, example_item ''B'' 0 2]"
        "[example_item ''B'' 0 1, example_item ''C'' 0 2]"]
  by (simp add: generate_trend_analysis_def word_dict_def rank_entry_def example_item_def Let_def)

text \<open>
  With eleven new words the list of new words holds ten of them: the eleventh is counted
  and not reported.
\<close>

theorem trend_report_counterexample:
  "new_items (generate_trend_analysis eleven_items [example_item ''z'' 0 1]) = 11
   \<and> new_words_list (generate_trend_analysis eleven_items [example_item ''z'' 0 1])
       = [''a'', ''b'', ''c'', ''d'', ''e'', ''f'', ''g'', ''h'', ''i'', ''j'']
   \<and> ''k'' \<in> word ` set eleven_items - word ` set [example_item ''z'' 0 1]"
  by (simp add: generate_trend_analysis_def word_dict_def eleven_items_def example_item_def
      Let_def)

subsection \<open>C7: analysis\<close>









subsection \<open>C5: the request loop\<close>















subsection \<open>C1: the fallback\<close>







subsection \<open>C9: releasing the browser\<close>

lemma crawl_with_playwright_keeps:
  "browser_open (snd (crawl_with_playwright env now config st)) = browser_open st
   \<and> engine_running (snd (crawl_with_playwright env now config st)) = engine_running st
   \<and> self_browser (snd (crawl_with_playwright env now config st)) = self_browser st
   \<and> self_playwright (snd (crawl_with_playwright env now config st)) = self_playwright st"
  by (simp add: crawl_with_playwright_def extract_data_from_page_def perform_def Let_def
      split: prod.splits)

lemma crawl_with_playwright_closes:
  assumes "raises env \<inter> {NewContext, NewPage, SetTimeout, Goto, Content, PageClose,
      ContextClose} = {}"
    and "self_browser st"
  shows "\<not> page_open (snd (crawl_with_playwright env now config st))
       \<and> \<not> context_open (snd (crawl_with_playwright env now config st))"
proof -
  have n: "NewContext \<notin> raises env" "NewPage \<notin> raises env" "SetTimeout \<notin> raises env"
    "Goto \<notin> raises env" "Content \<notin> raises env" "PageClose \<notin> raises env"
    "ContextClose \<notin> raises env"
    using assms(1) by auto
  show ?thesis
    using assms(2) n
    by (simp add: crawl_with_playwright_def extract_data_from_page_def perform_def Let_def
        split: prod.splits)
qed

lemma setup_playwright_state:
  assumes "\<not> self_browser st" "\<not> self_playwright st" "\<not> browser_open st"
    "\<not> engine_running st" "\<not> page_open st" "\<not> context_open st"
  shows "self_browser (snd (setup_playwright env st)) = fst (setup_playwright env st)
     \<and> browser_open (snd (setup_playwright env st)) = fst (setup_playwright env st)
     \<and> fst (setup_playwright env st)
         = (self_use_playwright st \<and> Start \<notin> raises env \<and> Launch \<notin> raises env)
     \<and> self_playwright (snd (setup_playwright env st))
         = (self_use_playwright st \<and> Start \<notin> raises env)
     \<and> engine_running (snd (setup_playwright env st))
         = (self_use_playwright st \<and> Start \<notin> raises env)
     \<and> \<not> page_open (snd (setup_playwright env st))
     \<and> \<not> context_open (snd (setup_playwright env st))"
  using assms by (simp add: setup_playwright_def perform_def Let_def split: prod.splits)

lemma crawl_hot_search_state:
  "snd (crawl_hot_search env now config primary st) =
     (if (\<exists>r. primary = Some r \<and> 0 < total r) \<or> \<not> self_use_playwright st then st
      else if fst (setup_playwright env st)
           then snd (crawl_with_playwright env now config (snd (setup_playwright env st)))
           else snd (setup_playwright env st))"
  by (auto simp: crawl_hot_search_def split: option.splits prod.splits)

lemma close_no_raise: "SessionClose \<notin> raises env \<Longrightarrow> \<not> fst (close env st)"
  by (simp add: close_def perform_def Let_def split: prod.splits)

lemma close_releases:
  assumes "self_browser st = browser_open st" "self_playwright st = engine_running st"
    and "\<not> browser_open st \<longrightarrow> \<not> page_open st \<and> \<not> context_open st"
    and "raises env \<inter> {SessionClose, BrowserClose, Stop} = {}"
  shows "\<not> browser_open (snd (close env st)) \<and> \<not> engine_running (snd (close env st))
       \<and> \<not> page_open (snd (close env st)) \<and> \<not> context_open (snd (close env st))"
proof -
  have n: "SessionClose \<notin> raises env" "BrowserClose \<notin> raises env" "Stop \<notin> raises env"
    using assms(4) by auto
  show ?thesis
    using assms(1,2,3) n
    by (auto simp: close_def perform_def Let_def split: prod.splits)
qed

lemma fresh_crawl_state:
  fixes env now config primary available
  defines "st1 \<equiv> snd (crawl_hot_search env now config primary (fallback_init config available))"
  defines "fallback \<equiv> (\<nexists>r. primary = Some r \<and> 0 < total r) \<and> use_playwright config \<and> available"
  shows "self_browser st1 = browser_open st1"
    and "self_playwright st1 = engine_running st1"
    and "\<not> browser_open st1 \<longrightarrow> \<not> page_open st1 \<and> \<not> context_open st1"
    and "browser_open st1 = (fallback \<and> Start \<notin> raises env \<and> Launch \<notin> raises env)"
    and "engine_running st1 = (fallback \<and> Start \<notin> raises env)"
    and "raises env \<inter> {NewContext, NewPage, SetTimeout, Goto, Content, PageClose,
           ContextClose} = {} \<longrightarrow> \<not> page_open st1 \<and> \<not> context_open st1"
proof -
  let ?st0 = "fallback_init config available"
  have init: "\<not> self_browser ?st0" "\<not> self_playwright ?st0" "\<not> browser_open ?st0"
    "\<not> engine_running ?st0" "\<not> page_open ?st0" "\<not> context_open ?st0"
    "self_use_playwright ?st0 = (use_playwright config \<and> available)"
    by (simp_all add: fallback_init_def)
  note su = setup_playwright_state [OF init(1-6), of env]
  note keep = crawl_with_playwright_keeps [of env now config "snd (setup_playwright env ?st0)"]
  note st = crawl_hot_search_state [of env now config primary ?st0]
  show "self_browser st1 = browser_open st1"
    unfolding st1_def st using init su keep by auto
  show "self_playwright st1 = engine_running st1"
    unfolding st1_def st using init su keep by auto
  show "\<not> browser_open st1 \<longrightarrow> \<not> page_open st1 \<and> \<not> context_open st1"
    unfolding st1_def st using init su keep by auto
  show "browser_open st1 = (fallback \<and> Start \<notin> raises env \<and> Launch \<notin> raises env)"
    unfolding st1_def st fallback_def using init su keep by auto
  show "engine_running st1 = (fallback \<and> Start \<notin> raises env)"
    unfolding st1_def st fallback_def using init su keep by auto
  show "raises env \<inter> {NewContext, NewPage, SetTimeout, Goto, Content, PageClose,
           ContextClose} = {} \<longrightarrow> \<not> page_open st1 \<and> \<not> context_open st1"
  proof
    assume r: "raises env \<inter> {NewContext, NewPage, SetTimeout, Goto, Content, PageClose,
           ContextClose} = {}"
    have "\<not> page_open (snd (crawl_with_playwright env now config (snd (setup_playwright env ?st0))))
       \<and> \<not> context_open (snd (crawl_with_playwright env now config (snd (setup_playwright env ?st0))))"
      if "fst (setup_playwright env ?st0)"
      using r that su by (intro crawl_with_playwright_closes) simp_all
    then show "\<not> page_open st1 \<and> \<not> context_open st1"
      unfolding st1_def st using init su by auto
  qed
qed

text \<open>
  C9 (as amended).  For a crawler object that is fresh when \<^verbatim>\<open>crawl_hot_search\<close> is
  called: if no operation on the context and the page raises (whether the extraction
  finds items or not, and also when it fails), the page and the context are closed when
  the call returns.  The browser and the engine are not released by the call: they are
  open on return exactly when the fallback ran and they were started.  They are released
  by \<^verbatim>\<open>close\<close>, which raises only if closing the session does, and after which, when
  no closing operation raises, neither browser, engine, context nor page is open.
\<close>

theorem browser_teardown:
  "(raises env \<inter> {NewContext, NewPage, SetTimeout, Goto, Content, PageClose, ContextClose} = {}
      \<longrightarrow> \<not> page_open (snd (crawl_hot_search env now config primary
                  (fallback_init config available)))
        \<and> \<not> context_open (snd (crawl_hot_search env now config primary
                  (fallback_init config available))))
   \<and> browser_open (snd (crawl_hot_search env now config primary
          (fallback_init config available)))
       = ((\<nexists>r. primary = Some r \<and> 0 < total r) \<and> use_playwright config \<and> available
          \<and> Start \<notin> raises env \<and> Launch \<notin> raises env)
   \<and> engine_running (snd (crawl_hot_search env now config primary
          (fallback_init config available)))
       = ((\<nexists>r. primary = Some r \<and> 0 < total r) \<and> use_playwright config \<and> available
          \<and> Start \<notin> raises env)
   \<and> (SessionClose \<notin> raises env \<longrightarrow>
        \<not> fst (close env (snd (crawl_hot_search env now config primary
                  (fallback_init config available)))))
   \<and> (raises env \<inter> {SessionClose, BrowserClose, Stop} = {} \<longrightarrow>
        \<not> browser_open (snd (close env (snd (crawl_hot_search env now config primary
                  (fallback_init config available)))))
      \<and> \<not> engine_running (snd (close env (snd (crawl_hot_search env now config primary
                  (fallback_init config available)))))
      \<and> \<not> page_open (snd (close env (snd (crawl_hot_search env now config primary
                  (fallback_init config available)))))
      \<and> \<not> context_open (snd (close env (snd (crawl_hot_search env now config primary
                  (fallback_init config available))))))"
proof -
  note f = fresh_crawl_state [of env now config primary available]
  have rel: "raises env \<inter> {SessionClose, BrowserClose, Stop} = {} \<Longrightarrow>
        \<not> browser_open (snd (close env (snd (crawl_hot_search env now config primary
                  (fallback_init config available)))))
      \<and> \<not> engine_running (snd (close env (snd (crawl_hot_search env now config primary
                  (fallback_init config available)))))
      \<and> \<not> page_open (snd (close env (snd (crawl_hot_search env now config primary
                  (fallback_init config available)))))
      \<and> \<not> context_open (snd (close env (snd (crawl_hot_search env now config primary
                  (fallback_init config available)))))"
    using f(1,2,3) by (rule close_releases)
  show ?thesis
    apply (intro conjI)
    subgoal by (rule f(6))
    subgoal using f(4) by (simp only: conj_assoc)
    subgoal using f(5) by (simp only: conj_assoc)
    subgoal by (rule impI) (rule close_no_raise)
    subgoal by (rule impI) (rule rel)
    done
qed

theorem browser_teardown_witness:
  "raises calm_env = {}
   \<and> \<not> page_open (snd (crawl_hot_search calm_env ''2025-01-01T09:00:00'' default_config
         (Some empty_result) (fallback_init default_config True)))
   \<and> \<not> context_open (snd (crawl_hot_search calm_env ''2025-01-01T09:00:00'' default_config
         (Some empty_result) (fallback_init default_config True)))
   \<and> browser_open (snd (crawl_hot_search calm_env ''2025-01-01T09:00:00'' default_config
         (Some empty_result) (fallback_init default_config True)))
   \<and> \<not> fst (close calm_env (snd (crawl_hot_search calm_env ''2025-01-01T09:00:00''
         default_config (Some empty_result) (fallback_init default_config True))))
   \<and> \<not> browser_open (snd (close calm_env (snd (crawl_hot_search calm_env
         ''2025-01-01T09:00:00'' default_config (Some empty_result)
         (fallback_init default_config True)))))
   \<and> \<not> engine_running (snd (close calm_env (snd (crawl_hot_search calm_env
         ''2025-01-01T09:00:00'' default_config (Some empty_result)
         (fallback_init default_config True)))))"
proof -
  have h: "raises calm_env = {}" by (simp add: calm_env_def)
  have p: "(\<nexists>r. Some empty_result = Some r \<and> 0 < total r) \<and> use_playwright default_config"
    by (simp add: empty_result_def default_config_def)
  show ?thesis
    using browser_teardown [of calm_env "''2025-01-01T09:00:00''" default_config
        "Some empty_result" True] p
    by (simp add: h)
qed

text \<open>
  When the navigation raises, the call returns \<^verbatim>\<open>None\<close> with page, context, browser
  and engine all still open; when nothing raises, it returns its items with the browser
  and the engine still open.
\<close>

theorem browser_teardown_counterexample:
  "fst (crawl_hot_search goto_fails_env ''2025-01-01T09:00:00'' default_config None
         (fallback_init default_config True)) = None
   \<and> page_open (snd (crawl_hot_search goto_fails_env ''2025-01-01T09:00:00'' default_config
         None (fallback_init default_config True)))
   \<and> context_open (snd (crawl_hot_search goto_fails_env ''2025-01-01T09:00:00''
         default_config None (fallback_init default_config True)))
   \<and> browser_open (snd (crawl_hot_search goto_fails_env ''2025-01-01T09:00:00''
         default_config None (fallback_init default_config True)))
   \<and> engine_running (snd (crawl_hot_search goto_fails_env ''2025-01-01T09:00:00''
         default_config None (fallback_init default_config True)))
   \<and> calls (snd (crawl_hot_search goto_fails_env ''2025-01-01T09:00:00''
         default_config None (fallback_init default_config True)))
       = [Start, Launch, NewContext, NewPage, SetTimeout, Goto]
   \<and> browser_open (snd (crawl_hot_search calm_env ''2025-01-01T09:00:00''
         default_config None (fallback_init default_config True)))
   \<and> engine_running (snd (crawl_hot_search calm_env ''2025-01-01T09:00:00''
         default_config None (fallback_init default_config True)))
   \<and> calls (snd (crawl_hot_search calm_env ''2025-01-01T09:00:00''
         default_config None (fallback_init default_config True)))
       = [Start, Launch, NewContext, NewPage, SetTimeout, Goto, Content, Count, Evaluate,
          Scripts, PageClose, ContextClose]"
  by (simp add: crawl_hot_search_def fallback_init_def default_config_def
      setup_playwright_def perform_def goto_fails_env_def calm_env_def
      crawl_with_playwright_def extract_data_from_page_def Let_def)

subsection \<open>C2: the heat value parser\<close>

declare bit_length.simps [simp del]
declare remove_all.simps [simp del]

lemma pow2_pos: "0 < pow2 e"
  by (simp add: pow2_def)

lemma pow10_pos: "0 < pow10 e"
  by (simp add: pow10_def)

lemma round_half_even_nonneg: "0 \<le> q \<Longrightarrow> 0 \<le> round_half_even q"
  by (auto simp: round_half_even_def Let_def)

lemma round_double_nonneg:
  assumes "0 \<le> q" "round_double q = Finite v"
  shows "0 \<le> v"
proof (cases "q = 0")
  case True
  then show ?thesis using assms(2) by (simp add: round_double_def)
next
  case False
  define p where "p = max (exponent_of \<bar>q\<bar> - 52) (- 1074)"
  have "0 \<le> \<bar>q\<bar> / pow2 p" using pow2_pos [of p] by simp
  then have "0 \<le> round_half_even (\<bar>q\<bar> / pow2 p)" by (rule round_half_even_nonneg)
  then have "0 \<le> rat_of_int (round_half_even (\<bar>q\<bar> / pow2 p)) * pow2 p"
    using pow2_pos [of p] by simp
  then show ?thesis
    using assms False by (auto simp: round_double_def Let_def p_def split: if_splits)
qed

lemma truncate_toward_zero_nonneg: "0 \<le> q \<Longrightarrow> 0 \<le> truncate_toward_zero q"
  by (simp add: truncate_toward_zero_def)

lemma foldl_digits_nonneg:
  "\<forall>d \<in> set ds. is_digit d \<Longrightarrow> 0 \<le> a \<Longrightarrow>
     0 \<le> foldl (\<lambda>a d. 10 * a + ((of_char d :: int) - 48)) a ds"
proof (induction ds arbitrary: a)
  case Nil
  then show ?case by simp
next
  case (Cons d ds)
  have "is_digit d" using Cons.prems(1) by simp
  then have "0 \<le> (of_char d :: int) - 48"
    by (simp add: is_digit_def) (metis of_nat_of_char of_nat_le_iff of_nat_numeral)
  then have "0 \<le> 10 * a + ((of_char d :: int) - 48)" using Cons.prems(2) by simp
  then show ?case using Cons.IH Cons.prems(1) by simp
qed

lemma digits_value_nonneg: "\<forall>d \<in> set ds. is_digit d \<Longrightarrow> 0 \<le> digits_value ds"
  unfolding digits_value_def by (rule foldl_digits_nonneg) simp_all

lemma parse_decimal_nonneg:
  assumes "parse_decimal s = Some q"
  shows "0 \<le> q"
proof -
  define ip where "ip = takeWhile is_digit s"
  define fp where "fp = (case dropWhile is_digit s of [] \<Rightarrow> []
      | c # r \<Rightarrow> if c = CHR ''.'' then takeWhile is_digit r else [])"
  have "\<forall>d \<in> set ip. is_digit d"
    unfolding ip_def by (auto dest: set_takeWhileD)
  moreover have "\<forall>d \<in> set fp. is_digit d"
    unfolding fp_def by (auto split: list.splits dest: set_takeWhileD)
  ultimately have "0 \<le> digits_value (ip @ fp)"
    by (intro digits_value_nonneg) auto
  then have "0 \<le> rat_of_int (digits_value (ip @ fp)) * pow10 e" for e
    using pow10_pos [of e] by simp
  then show ?thesis
    using assms
    by (auto simp: parse_decimal_def Let_def ip_def fp_def split: option.splits if_splits)
qed

lemma lower_char_minus: "lower_char c = CHR ''-'' \<longleftrightarrow> c = CHR ''-''"
proof
  assume l: "lower_char c = CHR ''-''"
  show "c = CHR ''-''"
  proof (rule ccontr)
    assume n: "c \<noteq> CHR ''-''"
    then have up: "65 \<le> (of_char c :: nat)" "(of_char c :: nat) \<le> 90"
      and eq: "char_of ((of_char c :: nat) + 32) = CHR ''-''"
      using l by (auto simp: lower_char_def split: if_splits)
    have "(of_char (char_of ((of_char c :: nat) + 32) :: char) :: nat) = (of_char c :: nat) + 32"
      using up by simp
    then show False using eq up by simp
  qed
next
  assume "c = CHR ''-''"
  then show "lower_char c = CHR ''-''" by (simp add: lower_char_def)
qed

lemma minus_py_lower: "CHR ''-'' \<in> set (py_lower s) \<longleftrightarrow> CHR ''-'' \<in> set s"
proof -
  have "CHR ''-'' \<in> lower_char ` set s \<longleftrightarrow> (\<exists>c \<in> set s. lower_char c = CHR ''-'')"
    unfolding image_iff by metis
  then show ?thesis by (simp add: py_lower_def lower_char_minus)
qed

lemma set_dropWhile_subset: "set (dropWhile P xs) \<subseteq> set xs"
  by (induction xs) auto

lemma set_strip_subset: "set (rev (dropWhile P (rev (dropWhile Q s)))) \<subseteq> set s"
proof -
  have "set (rev (dropWhile P (rev (dropWhile Q s)))) \<subseteq> set (rev (dropWhile Q s))"
    using set_dropWhile_subset [of P "rev (dropWhile Q s)"] by simp
  also have "\<dots> \<subseteq> set s" using set_dropWhile_subset [of Q s] by simp
  finally show ?thesis .
qed

lemma py_float_nonneg:
  assumes "CHR ''-'' \<notin> set s" "py_float s = Some (Finite q)"
  shows "0 \<le> q"
proof -
  define t where "t = py_lower (filter (\<lambda>c. c \<noteq> CHR ''_'')
      (rev (dropWhile is_float_space (rev (dropWhile is_float_space s)))))"
  have "CHR ''-'' \<notin> set t"
    unfolding t_def minus_py_lower using assms(1) set_strip_subset [of is_float_space is_float_space s]
    by auto
  then have hd: "\<not> (t \<noteq> [] \<and> hd t = CHR ''-'')"
    by (cases t) auto
  from assms(2) obtain body d where "parse_decimal body = Some d" "round_double d = Finite q"
    unfolding py_float_def Let_def t_def [symmetric] using hd
    by (auto split: if_splits option.splits)
  then show ?thesis
    using parse_decimal_nonneg round_double_nonneg by blast
qed

lemma scaled_nonneg:
  assumes "CHR ''-'' \<notin> set num" "0 \<le> factor" "scaled num factor = Inr n"
  shows "0 \<le> n"
proof -
  from assms(3) obtain x where x: "py_float num = Some x"
    and r: "int_of_float (float_mul x (Finite factor)) = Inr n"
    by (auto simp: scaled_def split: option.splits)
  from r obtain q where q: "x = Finite q" and v: "int_of_float (round_double (q * factor)) = Inr n"
    by (cases x) (auto split: if_splits)
  then obtain v' where v': "round_double (q * factor) = Finite v'" and n: "n = truncate_toward_zero v'"
    by (cases "round_double (q * factor)") auto
  have "0 \<le> q" using assms(1) x q py_float_nonneg by blast
  then have "0 \<le> q * factor" using assms(2) by simp
  then have "0 \<le> v'" using v' by (rule round_double_nonneg)
  then show ?thesis using n by (simp add: truncate_toward_zero_nonneg)
qed

lemma plain_nonneg:
  assumes "CHR ''-'' \<notin> set num" "plain num = Inr n"
  shows "0 \<le> n"
proof -
  from assms(2) obtain q where "py_float num = Some (Finite q)" "n = truncate_toward_zero q"
    by (auto simp: plain_def split: option.splits elim: int_of_float.elims)
  then show ?thesis using assms(1) py_float_nonneg truncate_toward_zero_nonneg by blast
qed

lemma set_remove_all: "set (remove_all sub s) \<subseteq> set s"
proof (induction sub s rule: remove_all.induct)
  case (1 sub s)
  show ?case
  proof (cases "s = [] \<or> sub = []")
    case True
    then show ?thesis by (subst remove_all.simps) simp
  next
    case False
    show ?thesis
    proof (cases "take (length sub) s = sub")
      case True
      have "set (remove_all sub (drop (length sub) s)) \<subseteq> set (drop (length sub) s)"
        using "1.IH"(1) False True by simp
      also have "\<dots> \<subseteq> set s" by (rule set_drop_subset)
      finally show ?thesis using False True by (subst remove_all.simps) simp
    next
      case nt: False
      have "set (remove_all sub (tl s)) \<subseteq> set (tl s)"
        using "1.IH"(2) False nt by simp
      moreover have "set (tl s) \<subseteq> set s" using False by (cases s) auto
      moreover have "hd s \<in> set s" using False by (cases s) auto
      ultimately show ?thesis using False nt by (subst remove_all.simps) auto
    qed
  qed
qed

lemma set_cleaned: "CHR ''-'' \<notin> set s \<Longrightarrow> CHR ''-'' \<notin> set (cleaned s)"
  using set_strip_subset [of is_space is_space "py_lower s"]
  by (auto simp: cleaned_def py_strip_def minus_py_lower)

lemma parse_heat_value_caught:
  "parse_heat_value s \<noteq> Inl ValueError \<and> parse_heat_value s \<noteq> Inl TypeError"
  by (simp add: parse_heat_value_def Let_def split: sum.splits py_error.splits)

lemma parse_heat_value_nonneg:
  assumes "CHR ''-'' \<notin> set s" "parse_heat_value s = Inr n"
  shows "0 \<le> n"
proof (cases "s = []")
  case True
  then show ?thesis using assms(2) by (simp add: parse_heat_value_def)
next
  case False
  define c where "c = cleaned s"
  have m: "CHR ''-'' \<notin> set c" unfolding c_def using assms(1) by (rule set_cleaned)
  have m10: "CHR ''-'' \<notin> set (filter (\<lambda>x. x \<noteq> CHR ''w'') (remove_all wan c))"
    using m set_remove_all [of wan c] by auto
  have m1: "CHR ''-'' \<notin> set (filter (\<lambda>x. x \<noteq> CHR ''k'') (remove_all qian c))"
    using m set_remove_all [of qian c] by auto
  define attempt where "attempt =
      (if contains wan c \<or> CHR ''w'' \<in> set c
       then scaled (filter (\<lambda>x. x \<noteq> CHR ''w'') (remove_all wan c)) 10000
       else if contains qian c \<or> CHR ''k'' \<in> set c
       then scaled (filter (\<lambda>x. x \<noteq> CHR ''k'') (remove_all qian c)) 1000
       else plain c)"
  have a: "attempt = Inr k \<Longrightarrow> 0 \<le> k" for k
    unfolding attempt_def
    using scaled_nonneg [OF m10, of 10000 k] scaled_nonneg [OF m1, of 1000 k]
      plain_nonneg [OF m, of k]
    by (auto split: if_splits)
  have "parse_heat_value s = (case attempt of Inl ValueError \<Rightarrow> Inr 0
      | Inl TypeError \<Rightarrow> Inr 0 | other \<Rightarrow> other)"
    using False by (simp add: parse_heat_value_def Let_def attempt_def c_def)
  then have "n = 0 \<or> attempt = Inr n"
    using assms(2) by (auto split: sum.splits py_error.splits)
  then show ?thesis using a by auto
qed

text \<open>
  C2 (as amended).  On a string of ASCII characters and unit markers the parser returns
  0 for the empty string and for a string whose number \<^verbatim>\<open>float\<close> does not accept;
  it raises neither \<^verbatim>\<open>ValueError\<close> nor \<^verbatim>\<open>TypeError\<close>; with a ten-thousand marker
  it returns the float product of the number and 10000, truncated, with a thousand
  marker and no ten-thousand marker that of the number and 1000, with no marker the
  float of the string, truncated, whenever that float is finite; and what it returns is
  not negative when the string has no minus sign.
\<close>

theorem parse_heat_value_contract:
  assumes "ascii_or_unit s"
  shows "parse_heat_value [] = Inr 0
   \<and> parse_heat_value s \<noteq> Inl ValueError \<and> parse_heat_value s \<noteq> Inl TypeError
   \<and> (s \<noteq> [] \<and> (contains wan (cleaned s) \<or> CHR ''w'' \<in> set (cleaned s)) \<longrightarrow>
        (py_float (filter (\<lambda>c. c \<noteq> CHR ''w'') (remove_all wan (cleaned s))) = None \<longrightarrow>
           parse_heat_value s = Inr 0)
      \<and> (\<forall>q v. py_float (filter (\<lambda>c. c \<noteq> CHR ''w'') (remove_all wan (cleaned s)))
                  = Some (Finite q)
               \<and> round_double (q * 10000) = Finite v \<longrightarrow>
             parse_heat_value s = Inr (truncate_toward_zero v)))
   \<and> (s \<noteq> [] \<and> \<not> (contains wan (cleaned s) \<or> CHR ''w'' \<in> set (cleaned s))
        \<and> (contains qian (cleaned s) \<or> CHR ''k'' \<in> set (cleaned s)) \<longrightarrow>
        (py_float (filter (\<lambda>c. c \<noteq> CHR ''k'') (remove_all qian (cleaned s))) = None \<longrightarrow>
           parse_heat_value s = Inr 0)
      \<and> (\<forall>q v. py_float (filter (\<lambda>c. c \<noteq> CHR ''k'') (remove_all qian (cleaned s)))
                  = Some (Finite q)
               \<and> round_double (q * 1000) = Finite v \<longrightarrow>
             parse_heat_value s = Inr (truncate_toward_zero v)))
   \<and> (s \<noteq> [] \<and> \<not> (contains wan (cleaned s) \<or> CHR ''w'' \<in> set (cleaned s))
        \<and> \<not> (contains qian (cleaned s) \<or> CHR ''k'' \<in> set (cleaned s)) \<longrightarrow>
        (py_float (cleaned s) = None \<longrightarrow> parse_heat_value s = Inr 0)
      \<and> (\<forall>q. py_float (cleaned s) = Some (Finite q) \<longrightarrow>
             parse_heat_value s = Inr (truncate_toward_zero q)))
   \<and> (CHR ''-'' \<notin> set s \<longrightarrow> (\<forall>n. parse_heat_value s = Inr n \<longrightarrow> 0 \<le> n))"
proof -
  have e: "parse_heat_value [] = Inr 0" by (simp add: parse_heat_value_def)
  have w: "(py_float (filter (\<lambda>c. c \<noteq> CHR ''w'') (remove_all wan (cleaned s))) = None \<longrightarrow>
           parse_heat_value s = Inr 0)
      \<and> (\<forall>q v. py_float (filter (\<lambda>c. c \<noteq> CHR ''w'') (remove_all wan (cleaned s)))
                  = Some (Finite q)
               \<and> round_double (q * 10000) = Finite v \<longrightarrow>
             parse_heat_value s = Inr (truncate_toward_zero v))"
    if "s \<noteq> []" "contains wan (cleaned s) \<or> CHR ''w'' \<in> set (cleaned s)"
    using that by (auto simp: parse_heat_value_def Let_def scaled_def)
  have k: "(py_float (filter (\<lambda>c. c \<noteq> CHR ''k'') (remove_all qian (cleaned s))) = None \<longrightarrow>
           parse_heat_value s = Inr 0)
      \<and> (\<forall>q v. py_float (filter (\<lambda>c. c \<noteq> CHR ''k'') (remove_all qian (cleaned s)))
                  = Some (Finite q)
               \<and> round_double (q * 1000) = Finite v \<longrightarrow>
             parse_heat_value s = Inr (truncate_toward_zero v))"
    if "s \<noteq> []" "\<not> (contains wan (cleaned s) \<or> CHR ''w'' \<in> set (cleaned s))"
      "contains qian (cleaned s) \<or> CHR ''k'' \<in> set (cleaned s)"
    using that by (auto simp: parse_heat_value_def Let_def scaled_def)
  have p: "(py_float (cleaned s) = None \<longrightarrow> parse_heat_value s = Inr 0)
      \<and> (\<forall>q. py_float (cleaned s) = Some (Finite q) \<longrightarrow>
             parse_heat_value s = Inr (truncate_toward_zero q))"
    if "s \<noteq> []" "\<not> (contains wan (cleaned s) \<or> CHR ''w'' \<in> set (cleaned s))"
      "\<not> (contains qian (cleaned s) \<or> CHR ''k'' \<in> set (cleaned s))"
    using that by (auto simp: parse_heat_value_def Let_def plain_def)
  have n: "CHR ''-'' \<notin> set s \<longrightarrow> (\<forall>n. parse_heat_value s = Inr n \<longrightarrow> 0 \<le> n)"
    using parse_heat_value_nonneg by blast
  show ?thesis
    apply (intro conjI)
    subgoal by (rule e)
    subgoal using parse_heat_value_caught by blast
    subgoal using parse_heat_value_caught by blast
    subgoal by (rule impI, elim conjE) (rule w, assumption+)
    subgoal by (rule impI, elim conjE) (rule k, assumption+)
    subgoal by (rule impI, elim conjE) (rule p, assumption+)
    subgoal by (rule n)
    done
qed

lemma two_w_ascii: "ascii_or_unit ''2w''"
  by code_simp

lemma two_w_marker: "CHR ''w'' \<in> set (cleaned ''2w'')"
  by code_simp

lemma two_w_float:
  "py_float (filter (\<lambda>c. c \<noteq> CHR ''w'') (remove_all wan (cleaned ''2w''))) = Some (Finite 2)"
  by code_simp

lemma two_w_product: "round_double (2 * 10000) = Finite 20000"
  by code_simp

lemma heat_3k: "parse_heat_value ''3k'' = Inr 3000"
  by code_simp

lemma heat_150: "parse_heat_value ''150'' = Inr 150"
  by code_simp

lemma heat_na: "parse_heat_value ''n/a'' = Inr 0"
  by code_simp

lemma heat_wan: "parse_heat_value (''1100.9'' @ wan) = Inr 11009000"
  by code_simp

lemma heat_qian: "parse_heat_value (''5'' @ qian) = Inr 5000"
  by code_simp

lemma heat_rounded: "parse_heat_value ''0.57w'' = Inr 5699"
  by code_simp

theorem parse_heat_value_contract_witness:
  "ascii_or_unit ''2w''
   \<and> CHR ''w'' \<in> set (cleaned ''2w'')
   \<and> py_float (filter (\<lambda>c. c \<noteq> CHR ''w'') (remove_all wan (cleaned ''2w''))) = Some (Finite 2)
   \<and> round_double (2 * 10000) = Finite 20000
   \<and> parse_heat_value ''2w'' = Inr 20000
   \<and> parse_heat_value ''3k'' = Inr 3000
   \<and> parse_heat_value ''150'' = Inr 150
   \<and> parse_heat_value [] = Inr 0
   \<and> parse_heat_value ''n/a'' = Inr 0
   \<and> parse_heat_value (''1100.9'' @ wan) = Inr 11009000
   \<and> parse_heat_value (''5'' @ qian) = Inr 5000
   \<and> parse_heat_value ''0.57w'' = Inr 5699"
proof -
  note c = parse_heat_value_contract [OF two_w_ascii]
  have "parse_heat_value ''2w'' = Inr (truncate_toward_zero 20000)"
    using c two_w_marker two_w_float two_w_product by blast
  then have r: "parse_heat_value ''2w'' = Inr 20000" by (simp add: truncate_toward_zero_def)
  have e: "parse_heat_value [] = Inr 0" using c by blast
  show ?thesis
    by (intro conjI two_w_ascii two_w_marker two_w_float two_w_product r e heat_3k heat_150
        heat_na heat_wan heat_qian heat_rounded)
qed

text \<open>
  A number with a minus sign gives a negative value, and an infinite number gives an
  \<^verbatim>\<open>OverflowError\<close>, which the handler does not catch.
\<close>

lemma heat_inf: "parse_heat_value ''inf'' = Inl OverflowError"
  by code_simp

theorem parse_heat_value_counterexample:
  "parse_heat_value ''-5'' = Inr (- 5)
   \<and> parse_heat_value ''inf'' = Inl OverflowError"
  by (rule conjI, code_simp) (rule heat_inf)

subsection \<open>C6: the credential of the API crawler\<close>

text \<open>
  C6 (as amended).  When no key is given and the environment variable holds none,
  \<^verbatim>\<open>create_api_crawler\<close> raises \<^verbatim>\<open>ValueError\<close> and returns no crawler, so that
  no request is issued; a crawler it returns has a key.  \<^verbatim>\<open>crawl_hot_search\<close>
  itself does not look at the key: whatever it is, the method issues exactly one
  request, with that key as parameter.
\<close>

theorem api_key_checked_by_factory:
  "(absent key \<and> absent env_key \<longrightarrow> create_api_crawler key env_key = Inl ValueError)
   \<and> (\<forall>c. create_api_crawler key env_key = Inr c \<longrightarrow> \<not> absent (api_key c))
   \<and> snd (api_crawl_hot_search now self net) = [ApiGet (api_key self)]"
  by (auto simp: create_api_crawler_def Let_def api_crawl_hot_search_def make_api_request_def
      split: if_splits api_response.splits option.splits json.splits)

theorem api_key_checked_by_factory_witness:
  "absent None \<and> absent (Some [])
   \<and> create_api_crawler None (Some []) = Inl ValueError
   \<and> \<not> absent (Some ''k3y'')
   \<and> map_sum id api_key (create_api_crawler None (Some ''k3y'')) = Inr (Some ''k3y'')"
  using api_key_checked_by_factory [of None "Some []"]
    api_key_checked_by_factory [of None "Some ''k3y''"]
  by (simp add: absent_def create_api_crawler_def)

text \<open>
  A crawler built with no key issues the request all the same, and returns the result
  that the answer holds.
\<close>

theorem api_key_counterexample:
  "absent (api_key keyless_crawler)
   \<and> snd (api_crawl_hot_search ''2025-01-01T09:00:00'' keyless_crawler one_entry_answer)
       = [ApiGet None]
   \<and> fst (api_crawl_hot_search ''2025-01-01T09:00:00'' keyless_crawler one_entry_answer)
       = Some \<lparr>items = [\<lparr>word = ''A'', heat = 150, rank = 1, url = ''u'',
                          category = Some ''hot'', tags = [],
                          created_at = ''2025-01-01T09:00:00''\<rparr>],
               total = 1, crawl_time = ''2025-01-01T09:00:00'', source = ''xiaohongshu''\<rparr>"
proof -
  have h: "heat_of (JStr ''150'') = Some 150"
    by (simp add: heat_of_def heat_150)
  show ?thesis
    by (simp add: absent_def keyless_crawler_def one_entry_answer_def api_crawl_hot_search_def
        make_api_request_def dict_get_def parse_api_data_def default_config_def slice_to_def
        api_item_def h new_result_def add_item_def)
qed

end
